theory Spec2Isabelle
  imports Complex_Main "HOL-Library.Multiset" "HOL-Library.AList"
begin

section \<open>Values, errors and results\<close>

text \<open>
  The monitor is the Python class \<open>SystemHealthMonitor\<close> of
  \<open>script/systemm_monitor.py\<close>. Its functions are embedded as HOL functions over
  the following data.

  \<^item> A Python exception is a value of \<open>error\<close>; a function that can raise returns
    \<open>error + 'a\<close>, with \<open>Inl\<close> for the exception.
  \<^item> A value that \<open>json.load\<close> can produce is a \<open>pyval\<close>. A finite Python float
    is modelled by the rational number it denotes exactly; NaN, the infinities and the
    negative zero are outside the model.
  \<^item> Text is a \<open>string\<close> of bytes (UTF-8).
\<close>

datatype error =
    ImportError
  | KeyError string
  | TypeError
  | ValueError
  | ZeroDivisionError
  | PermissionError
  | OSError
  | JSONDecodeError
  | NoSuchProcess
  | AccessDenied
  | KeyboardInterrupt

datatype pyval =
    PyNone
  | PyBool bool
  | PyInt int
  | PyFloat rat
  | PyStr string
  | PyList "pyval list"
  | PyDict "(string \<times> pyval) list"

text \<open>Sequencing of computations that may raise: the first exception wins.\<close>

definition bind_res :: "error + 'a \<Rightarrow> ('a \<Rightarrow> error + 'b) \<Rightarrow> error + 'b" where
  "bind_res r f = (case r of Inl e \<Rightarrow> Inl e | Inr v \<Rightarrow> f v)"


section \<open>Python numbers and their text\<close>

text \<open>
  The f-strings of the monitor render numbers in three ways: \<open>str\<close> of an integer,
  the format \<open>.1f\<close> of a float and \<open>str\<close> of a float. The arithmetic below works on
  integers and rationals only.
\<close>

definition digit_char :: "int \<Rightarrow> char" where
  "digit_char d = ''0123456789'' ! nat d"

function dec_digits :: "int \<Rightarrow> string" where
  "dec_digits n =
     (if n < 10 then [digit_char n] else dec_digits (n div 10) @ [digit_char (n mod 10)])"
  by pat_completeness auto
termination
  by (relation "measure nat") auto

declare dec_digits.simps [simp del]

text \<open>\<open>str(i)\<close> for an integer \<open>i\<close>.\<close>

definition py_str_int :: "int \<Rightarrow> string" where
  "py_str_int i = (if i < 0 then ''-'' @ dec_digits (- i) else dec_digits i)"

text \<open>Rounding to the nearest integer, a tie to the even one.\<close>

definition round_half_even :: "rat \<Rightarrow> int" where
  "round_half_even r =
     (let f = \<lfloor>r\<rfloor>; d = r - of_int f
      in if d < 1 / 2 then f else if 1 / 2 < d then f + 1 else if even f then f else f + 1)"

text \<open>
  \<open>format(x, '.1f')\<close> for a float \<open>x\<close>: the exact value of \<open>x\<close>, correctly
  rounded to one decimal; a negative value keeps its sign also when it rounds to zero.
\<close>

definition format_1f :: "rat \<Rightarrow> string" where
  "format_1f x =
     (let t = round_half_even (\<bar>x\<bar> * 10)
      in (if x < 0 then ''-'' else []) @ dec_digits (t div 10) @ ''.'' @ dec_digits (t mod 10))"

subsection \<open>Binary floating point\<close>

function pow_nonneg :: "rat \<Rightarrow> int \<Rightarrow> rat" where
  "pow_nonneg b e =
     (if e \<le> 0 then 1
      else if even e then (let h = pow_nonneg b (e div 2) in h * h)
      else b * pow_nonneg b (e - 1))"
  by pat_completeness auto
termination
  by (relation "measure (\<lambda>(b, e). nat e)") auto

declare pow_nonneg.simps [simp del]

definition pow_int :: "rat \<Rightarrow> int \<Rightarrow> rat" where
  "pow_int b e = (if 0 \<le> e then pow_nonneg b e else 1 / pow_nonneg b (- e))"

function num_digits :: "int \<Rightarrow> int \<Rightarrow> int" where
  "num_digits b n = (if n \<le> 0 \<or> b < 2 then 0 else 1 + num_digits b (n div b))"
  by pat_completeness auto
termination
  by (relation "measure (\<lambda>(b, n). nat n)") (auto simp: int_div_less_self)

declare num_digits.simps [simp del]

text \<open>\<open>ilog b a\<close> is the integer \<open>e\<close> with \<open>b\<^sup>e \<le> a < b\<^sup>e\<^sup>+\<^sup>1\<close>, for \<open>a > 0\<close>.\<close>

definition ilog :: "int \<Rightarrow> rat \<Rightarrow> int" where
  "ilog b a =
     (let (p, q) = quotient_of a;
          e = num_digits b p - num_digits b q
      in if pow_int (of_int b) e \<le> a then e else e - 1)"

text \<open>
  The binary64 number nearest to a rational (a tie to the even significand): 53 bits of
  significand, the least exponent that of the subnormal numbers. Overflow to an infinity
  is outside the model.
\<close>

definition to_double :: "rat \<Rightarrow> rat" where
  "to_double x =
     (if x = 0 then 0
      else let a = \<bar>x\<bar>;
               e = max (ilog 2 a - 52) (- 1074);
               m = round_half_even (a / pow_int 2 e)
           in sgn x * of_int m * pow_int 2 e)"

text \<open>
  \<open>a / b\<close> for two integers (true division, correctly rounded), \<open>x * y\<close> for two
  floats, and \<open>round(x, 2)\<close> for a float. Division by zero raises.
\<close>

definition int_true_div :: "int \<Rightarrow> int \<Rightarrow> error + rat" where
  "int_true_div a b =
     (if b = 0 then Inl ZeroDivisionError else Inr (to_double (of_int a / of_int b)))"

text \<open>The same division by a literal that is not zero.\<close>

definition int_true_div_by :: "int \<Rightarrow> int \<Rightarrow> rat" where
  "int_true_div_by a b = to_double (of_int a / of_int b)"

definition float_mul :: "rat \<Rightarrow> rat \<Rightarrow> rat" where
  "float_mul x y = to_double (x * y)"

definition py_round2 :: "rat \<Rightarrow> rat" where
  "py_round2 x = to_double (of_int (round_half_even (x * 100)) / 100)"

subsection \<open>\<open>str\<close> of a float\<close>

text \<open>
  \<open>str(x)\<close> of a float is the shortest decimal numeral that reads back as \<open>x\<close>, and
  among those of that length the nearest to \<open>x\<close>, the one with the even last digit when
  two are equally near. \<open>shortest_from n a\<close> looks for it with \<open>n\<close>, \<open>n + 1\<close>, ...
  significant digits (17 always suffice) among the two neighbours of \<open>a\<close> with that
  many digits, and returns its digits as an integer \<open>d\<close> and its exponent \<open>k\<close>: the
  numeral denotes \<open>d * 10\<^sup>k\<close>.
\<close>

function shortest_from :: "int \<Rightarrow> rat \<Rightarrow> int \<times> int" where
  "shortest_from n a =
     (let k = ilog 10 a + 1 - n;
          lo = \<lfloor>a / pow_int 10 k\<rfloor>;
          vlo = of_int lo * pow_int 10 k;
          vhi = of_int (lo + 1) * pow_int 10 k;
          oklo = (to_double vlo = a);
          okhi = (to_double vhi = a);
          nearest = (if a - vlo < vhi - a then lo
                     else if vhi - a < a - vlo then lo + 1
                     else if even lo then lo else lo + 1)
      in if oklo \<and> okhi then (nearest, k)
         else if oklo then (lo, k)
         else if okhi then (lo + 1, k)
         else if 17 \<le> n then (nearest, k)
         else shortest_from (n + 1) a)"
  by pat_completeness auto
termination
  by (relation "measure (\<lambda>(n, a). nat (17 - n))") auto

declare shortest_from.simps [simp del]

definition strip_zeros :: "string \<Rightarrow> string" where
  "strip_zeros ds = rev (dropWhile (\<lambda>c. c = CHR ''0'') (rev ds))"

text \<open>
  The digits \<open>ds\<close> with the decimal point after the first \<open>decpt\<close> of them, in
  scientific notation (the exponent with two digits at least) and in positional
  notation (with \<open>.0\<close> after an integral value).
\<close>

definition exp_form :: "string \<Rightarrow> int \<Rightarrow> string" where
  "exp_form ds decpt =
     (let e = decpt - 1; es = dec_digits \<bar>e\<bar>
      in take 1 ds @ (if drop 1 ds = [] then [] else ''.'' @ drop 1 ds) @ ''e''
         @ (if e < 0 then ''-'' else ''+'') @ (if length es < 2 then ''0'' @ es else es))"

definition fixed_form :: "string \<Rightarrow> int \<Rightarrow> string" where
  "fixed_form ds decpt =
     (if decpt \<le> 0 then ''0.'' @ replicate (nat (- decpt)) CHR ''0'' @ ds
      else if int (length ds) \<le> decpt
        then ds @ replicate (nat decpt - length ds) CHR ''0'' @ ''.0''
      else take (nat decpt) ds @ ''.'' @ drop (nat decpt) ds)"

definition float_repr :: "rat \<Rightarrow> string" where
  "float_repr x =
     (if x = 0 then ''0.0''
      else let (d, k) = shortest_from 1 \<bar>x\<bar>;
               ds0 = dec_digits d;
               decpt = int (length ds0) + k;
               ds = strip_zeros ds0
           in (if x < 0 then ''-'' else [])
              @ (if decpt \<le> - 4 \<or> 16 < decpt then exp_form ds decpt else fixed_form ds decpt))"

text \<open>
  A threshold is compared with a number and then shown with \<open>str\<close>. \<open>py_number v\<close>
  is the numeric value of \<open>v\<close> together with \<open>str(v)\<close>, for the values that an order
  comparison with a float or an integer accepts (\<open>True\<close> counts as 1 and \<open>False\<close> as
  0); the comparison raises \<open>TypeError\<close> for every other value.
\<close>

fun py_number :: "pyval \<Rightarrow> error + (rat \<times> string)" where
  "py_number (PyInt i) = Inr (of_int i, py_str_int i)"
| "py_number (PyFloat x) = Inr (x, float_repr x)"
| "py_number (PyBool b) = Inr (if b then 1 else 0, if b then ''True'' else ''False'')"
| "py_number v = Inl TypeError"


section \<open>The thresholds of \<open>SystemHealthMonitor.__init__\<close>\<close>

text \<open>
  \<^verbatim>\<open>
  self.thresholds = {"cpu_percent": 80.0, "memory_percent": 85.0,
                     "disk_percent": 90.0, "max_processes": 300}
  if os.path.exists(config_file):
      with open(config_file, 'r') as f:
          config = json.load(f)
          self.thresholds.update(config.get('thresholds', {}))
  \<close>
  These are the lines 19 to 31, the part of the constructor that builds the
  thresholds; the constructor as a whole and the loading of the module follow below.
  The dictionary \<open>self.thresholds\<close> is a map from keys to values. What the file
  system holds under \<open>config_file\<close> is a \<open>config_file\<close>: nothing, a file that cannot
  be opened, a file that is not JSON, or a JSON document. The model covers the documents
  of the documented format: the top level is an object, and its member \<open>thresholds\<close>,
  when present, is an object; \<open>Document None\<close> is a document without that member and
  \<open>Document (Some ms)\<close> one whose \<open>thresholds\<close> object has the members \<open>ms\<close>, in
  the order of the text. The member values are not restricted.
\<close>

type_synonym thresholds = "string \<rightharpoonup> pyval"

datatype config_file =
    Missing
  | Unreadable
  | Malformed
  | Document "(string \<times> pyval) list option"

definition default_thresholds :: thresholds where
  "default_thresholds =
     [''cpu_percent'' \<mapsto> PyFloat 80,
      ''memory_percent'' \<mapsto> PyFloat 85,
      ''disk_percent'' \<mapsto> PyFloat 90,
      ''max_processes'' \<mapsto> PyInt 300]"

text \<open>
  The dictionary that \<open>json.load\<close> builds from the members of an object: for a key
  that occurs more than once the last member wins.
\<close>

definition dict_of_members :: "(string \<times> pyval) list \<Rightarrow> (string \<rightharpoonup> pyval)" where
  "dict_of_members ms = map_of (rev ms)"

text \<open>\<open>d.update(e)\<close>: every key of \<open>e\<close> is set in \<open>d\<close>, the other keys of \<open>d\<close> stay.\<close>

definition dict_update :: "(string \<rightharpoonup> pyval) \<Rightarrow> (string \<rightharpoonup> pyval) \<Rightarrow> (string \<rightharpoonup> pyval)" where
  "dict_update d e = (\<lambda>k. case e k of Some v \<Rightarrow> Some v | None \<Rightarrow> d k)"

fun init_thresholds :: "config_file \<Rightarrow> error + thresholds" where
  "init_thresholds Missing = Inr default_thresholds"
| "init_thresholds Unreadable = Inl OSError"
| "init_thresholds Malformed = Inl JSONDecodeError"
| "init_thresholds (Document None) = Inr (dict_update default_thresholds Map.empty)"
| "init_thresholds (Document (Some ms)) =
     Inr (dict_update default_thresholds (dict_of_members ms))"

section \<open>Startup: the module and the constructor\<close>

text \<open>
  \<^verbatim>\<open>
  import psutil
  import time
  import logging
  import smtplib
  from email.mime.text import MimeText
  from datetime import datetime
  import json
  import os
  \<close>
  The statements of the module run when it is loaded, before \<open>main\<close> constructs the
  monitor. \<open>psutil\<close> is a package of its own and may be missing; the other modules
  belong to Python. \<open>from m import n\<close> raises \<open>ImportError\<close> when the module \<open>m\<close>
  has no name \<open>n\<close>; a module that is missing raises a subclass of it, which the model
  does not tell apart. \<open>email_mime_text_names\<close> are the names of the module
  \<open>email.mime.text\<close>: the class \<open>MIMEText\<close> that it defines and the names that it
  imports for itself.
\<close>

definition email_mime_text_names :: "string list" where
  "email_mime_text_names = [''MIMEText'', ''MIMENonMultipart'', ''Charset'']"

definition import_from :: "string list \<Rightarrow> string \<Rightarrow> error + unit" where
  "import_from names name = (if name \<in> set names then Inr () else Inl ImportError)"

definition load_module :: "bool \<Rightarrow> error + unit" where
  "load_module psutil_installed =
     bind_res (if psutil_installed then Inr () else Inl ImportError) (\<lambda>u.
       import_from email_mime_text_names ''MimeText'')"

text \<open>
  \<open>__init__\<close> as a whole: after the thresholds it sets the logging up, where
  \<open>logging.FileHandler('system_health.log')\<close> opens the log file and raises
  \<open>OSError\<close> when it cannot. The monitor that the constructor returns is modelled by
  its thresholds.
\<close>

definition monitor_init :: "bool \<Rightarrow> config_file \<Rightarrow> error + thresholds" where
  "monitor_init log_file_opens config =
     bind_res (init_thresholds config) (\<lambda>th.
       if log_file_opens then Inr th else Inl OSError)"

text \<open>Startup: the module is loaded, then the monitor is constructed.\<close>

definition startup :: "bool \<Rightarrow> bool \<Rightarrow> config_file \<Rightarrow> error + thresholds" where
  "startup psutil_installed log_file_opens config =
     bind_res (load_module psutil_installed) (\<lambda>u. monitor_init log_file_opens config)"


section \<open>Metrics and their collection\<close>

text \<open>
  The dictionary \<open>metrics\<close> that \<open>monitor_once\<close> builds has a fixed set of keys, so
  it is a record, and so are the dictionaries nested in it. The dictionary of the disks
  keeps the order in which its keys were inserted, which \<open>items()\<close> follows: it is a
  list of pairs with distinct keys.
\<close>

record memory_info =
  mem_percent :: rat
  mem_used :: rat
  mem_total :: rat
  mem_available :: rat

record disk_data =
  dsk_percent :: rat
  dsk_used :: rat
  dsk_total :: rat
  dsk_free :: rat

record proc_info =
  proc_pid :: int
  proc_name :: "string option"
  proc_cpu_percent :: "rat option"
  proc_memory_percent :: "rat option"

record metrics =
  cpu_percent :: rat
  memory :: memory_info
  disk :: "(string \<times> disk_data) list"
  process_count :: nat
  top_processes :: "proc_info list"

text \<open>
  What \<open>psutil\<close> and the clock return during one cycle is a \<open>host\<close>:
  \<^item> \<open>cpu_reading\<close>: \<open>psutil.cpu_percent(interval=1)\<close>;
  \<^item> \<open>virtual_memory\<close>: the fields \<open>percent\<close>, \<open>used\<close>, \<open>total\<close>, \<open>available\<close>
    of \<open>psutil.virtual_memory()\<close>, the last three in bytes;
  \<^item> \<open>partitions\<close>: the mount points of \<open>psutil.disk_partitions()\<close>, in its order;
  \<^item> \<open>disk_usage\<close>: \<open>psutil.disk_usage\<close>, which returns the bytes of a mount point or
    raises;
  \<^item> \<open>pids\<close>: \<open>psutil.pids()\<close>;
  \<^item> \<open>process_iter\<close>: for each process that \<open>psutil.process_iter\<close> yields, in its
    order, what reading \<open>proc.info\<close> gives: the dictionary or an exception;
  \<^item> \<open>report_time\<close> and \<open>heartbeat_time\<close>: what \<open>datetime.now()\<close> returns in
    \<open>generate_report\<close> and for the line of a healthy cycle.
\<close>

record vmem =
  vm_percent :: rat
  vm_used :: int
  vm_total :: int
  vm_available :: int

record usage =
  du_total :: int
  du_used :: int
  du_free :: int

record datetime =
  dt_year :: nat
  dt_month :: nat
  dt_day :: nat
  dt_hour :: nat
  dt_minute :: nat
  dt_second :: nat

record host =
  cpu_reading :: rat
  virtual_memory :: vmem
  partitions :: "string list"
  disk_usage :: "string \<Rightarrow> error + usage"
  pids :: "int list"
  process_iter :: "(error + proc_info) list"
  report_time :: datetime
  heartbeat_time :: datetime

text \<open>\<^verbatim>\<open>return round(bytes_value / (1024**3), 2)\<close>\<close>

definition bytes_to_gb :: "int \<Rightarrow> rat" where
  "bytes_to_gb bytes_value = py_round2 (int_true_div_by bytes_value (1024 ^ 3))"

definition get_cpu_usage :: "host \<Rightarrow> rat" where
  "get_cpu_usage h = cpu_reading h"

definition get_memory_usage :: "host \<Rightarrow> memory_info" where
  "get_memory_usage h =
     (let memory = virtual_memory h
      in \<lparr>mem_percent = vm_percent memory,
          mem_used = bytes_to_gb (vm_used memory),
          mem_total = bytes_to_gb (vm_total memory),
          mem_available = bytes_to_gb (vm_available memory)\<rparr>)"

text \<open>
  \<^verbatim>\<open>
  disk_info = {}
  for partition in psutil.disk_partitions():
      try:
          usage = psutil.disk_usage(partition.mountpoint)
          disk_info[partition.mountpoint] = {
              'percent': (usage.used / usage.total) * 100,
              'used': self.bytes_to_gb(usage.used),
              'total': self.bytes_to_gb(usage.total),
              'free': self.bytes_to_gb(usage.free)}
      except PermissionError:
          continue
  return disk_info
  \<close>
  \<open>disk_entry\<close> is the dictionary of one mount point; its first item divides by the
  total. \<open>get_disk_usage_from\<close> is the loop, with \<open>disk_info\<close> as its state: only
  \<open>PermissionError\<close> is caught. Storing under a key that the dictionary has replaces
  the value and keeps the key's place (\<open>AList.update\<close>).
\<close>

definition disk_entry :: "usage \<Rightarrow> error + disk_data" where
  "disk_entry u =
     bind_res (int_true_div (du_used u) (du_total u)) (\<lambda>q.
       Inr \<lparr>dsk_percent = float_mul q 100,
            dsk_used = bytes_to_gb (du_used u),
            dsk_total = bytes_to_gb (du_total u),
            dsk_free = bytes_to_gb (du_free u)\<rparr>)"

fun get_disk_usage_from ::
  "(string \<Rightarrow> error + usage) \<Rightarrow> string list \<Rightarrow> (string \<times> disk_data) list
     \<Rightarrow> error + (string \<times> disk_data) list" where
  "get_disk_usage_from du [] disk_info = Inr disk_info"
| "get_disk_usage_from du (mountpoint # rest) disk_info =
     (case bind_res (du mountpoint) disk_entry of
        Inr d \<Rightarrow> get_disk_usage_from du rest (AList.update mountpoint d disk_info)
      | Inl e \<Rightarrow>
          if e = PermissionError then get_disk_usage_from du rest disk_info else Inl e)"

definition get_disk_usage :: "host \<Rightarrow> error + (string \<times> disk_data) list" where
  "get_disk_usage h = get_disk_usage_from (disk_usage h) (partitions h) []"

definition get_process_count :: "host \<Rightarrow> nat" where
  "get_process_count h = length (pids h)"

text \<open>
  \<^verbatim>\<open>
  processes = []
  for proc in psutil.process_iter(['pid', 'name', 'cpu_percent', 'memory_percent']):
      try:
          processes.append(proc.info)
      except (psutil.NoSuchProcess, psutil.AccessDenied):
          continue
  return sorted(processes, key=lambda x: x['cpu_percent'] or 0, reverse=True)[:limit]
  \<close>
  \<open>sorted\<close> is stable; with \<open>reverse=True\<close> it reverses the list, sorts it stably in
  ascending order and reverses the result. The slice \<open>[:limit]\<close> with a negative
  \<open>limit\<close> drops that many elements from the end.
\<close>

fun read_processes :: "(error + proc_info) list \<Rightarrow> proc_info list \<Rightarrow> error + proc_info list" where
  "read_processes [] processes = Inr processes"
| "read_processes (r # rest) processes =
     (case r of
        Inr info \<Rightarrow> read_processes rest (processes @ [info])
      | Inl e \<Rightarrow>
          if e = NoSuchProcess \<or> e = AccessDenied then read_processes rest processes
          else Inl e)"

definition cpu_key :: "proc_info \<Rightarrow> rat" where
  "cpu_key x = (case proc_cpu_percent x of None \<Rightarrow> 0 | Some c \<Rightarrow> if c = 0 then 0 else c)"

definition sorted_reverse :: "('a \<Rightarrow> rat) \<Rightarrow> 'a list \<Rightarrow> 'a list" where
  "sorted_reverse key xs = rev (sort_key key (rev xs))"

definition slice_to :: "'a list \<Rightarrow> int \<Rightarrow> 'a list" where
  "slice_to xs limit =
     (if 0 \<le> limit then take (nat limit) xs else take (length xs - nat (- limit)) xs)"

definition get_top_processes_limit :: "host \<Rightarrow> int \<Rightarrow> error + proc_info list" where
  "get_top_processes_limit h limit =
     bind_res (read_processes (process_iter h) []) (\<lambda>processes.
       Inr (slice_to (sorted_reverse cpu_key processes) limit))"

text \<open>The default of the parameter: \<open>limit=5\<close>.\<close>

definition get_top_processes :: "host \<Rightarrow> error + proc_info list" where
  "get_top_processes h = get_top_processes_limit h 5"


section \<open>The evaluator: \<open>check_thresholds\<close>\<close>

text \<open>
  \<open>d[k]\<close> raises \<open>KeyError\<close> for a key that the dictionary does not have.
  \<open>threshold th k\<close> reads \<open>self.thresholds[k]\<close> for a comparison and for the message.
\<close>

definition dict_get :: "(string \<rightharpoonup> 'v) \<Rightarrow> string \<Rightarrow> error + 'v" where
  "dict_get d k = (case d k of None \<Rightarrow> Inl (KeyError k) | Some v \<Rightarrow> Inr v)"

definition threshold :: "thresholds \<Rightarrow> string \<Rightarrow> error + (rat \<times> string)" where
  "threshold th k = bind_res (dict_get th k) py_number"

text \<open>The four messages; \<open>v\<close> is the value measured and \<open>ts\<close> the threshold as text.\<close>

definition cpu_alert :: "rat \<Rightarrow> string \<Rightarrow> string" where
  "cpu_alert v ts = ''High CPU usage: '' @ format_1f v @ ''% (threshold: '' @ ts @ ''%)''"

definition memory_alert :: "rat \<Rightarrow> string \<Rightarrow> string" where
  "memory_alert v ts = ''High memory usage: '' @ format_1f v @ ''% (threshold: '' @ ts @ ''%)''"

definition disk_alert :: "string \<Rightarrow> rat \<Rightarrow> string \<Rightarrow> string" where
  "disk_alert mount v ts =
     ''High disk usage on '' @ mount @ '': '' @ format_1f v @ ''% (threshold: '' @ ts @ ''%)''"

definition process_alert :: "nat \<Rightarrow> string \<Rightarrow> string" where
  "process_alert n ts =
     ''High process count: '' @ py_str_int (int n) @ '' (threshold: '' @ ts @ '')''"

text \<open>
  \<^verbatim>\<open>
  alerts = []
  if metrics['cpu_percent'] > self.thresholds['cpu_percent']:
      alerts.append(f"High CPU usage: {metrics['cpu_percent']:.1f}% (threshold: ...%)")
  if metrics['memory']['percent'] > self.thresholds['memory_percent']:
      alerts.append(f"High memory usage: ...")
  for mount, disk_data in metrics['disk'].items():
      if disk_data['percent'] > self.thresholds['disk_percent']:
          alerts.append(f"High disk usage on {mount}: ...")
  if metrics['process_count'] > self.thresholds['max_processes']:
      alerts.append(f"High process count: ...")
  return alerts
  \<close>
  Each statement takes the list \<open>alerts\<close> and returns it, possibly longer.
\<close>

definition check_cpu :: "thresholds \<Rightarrow> metrics \<Rightarrow> string list \<Rightarrow> error + string list" where
  "check_cpu th m alerts =
     bind_res (threshold th ''cpu_percent'') (\<lambda>(t, ts).
       Inr (if cpu_percent m > t then alerts @ [cpu_alert (cpu_percent m) ts] else alerts))"

definition check_memory :: "thresholds \<Rightarrow> metrics \<Rightarrow> string list \<Rightarrow> error + string list" where
  "check_memory th m alerts =
     bind_res (threshold th ''memory_percent'') (\<lambda>(t, ts).
       Inr (if mem_percent (memory m) > t
            then alerts @ [memory_alert (mem_percent (memory m)) ts] else alerts))"

fun check_disk ::
  "thresholds \<Rightarrow> (string \<times> disk_data) list \<Rightarrow> string list \<Rightarrow> error + string list" where
  "check_disk th [] alerts = Inr alerts"
| "check_disk th ((mount, d) # rest) alerts =
     bind_res (threshold th ''disk_percent'') (\<lambda>(t, ts).
       check_disk th rest
         (if dsk_percent d > t then alerts @ [disk_alert mount (dsk_percent d) ts]
          else alerts))"

definition check_process_count ::
  "thresholds \<Rightarrow> metrics \<Rightarrow> string list \<Rightarrow> error + string list" where
  "check_process_count th m alerts =
     bind_res (threshold th ''max_processes'') (\<lambda>(t, ts).
       Inr (if of_nat (process_count m) > t
            then alerts @ [process_alert (process_count m) ts] else alerts))"

definition check_thresholds :: "thresholds \<Rightarrow> metrics \<Rightarrow> error + string list" where
  "check_thresholds th m =
     bind_res (check_cpu th m []) (\<lambda>alerts.
     bind_res (check_memory th m alerts) (\<lambda>alerts.
     bind_res (check_disk th (disk m) alerts) (\<lambda>alerts.
     check_process_count th m alerts)))"


section \<open>The report: \<open>generate_report\<close>\<close>

text \<open>
  \<open>strftime\<close> with the formats \<open>%Y-%m-%d %H:%M:%S\<close> and \<open>%H:%M:%S\<close>: every field
  padded with zeros to its width (for the year, from the year 1000 on, this is what
  every platform prints).
\<close>

definition newline :: string where
  "newline = [CHR 0x0A]"

definition zero_pad :: "nat \<Rightarrow> nat \<Rightarrow> string" where
  "zero_pad w n = (let s = dec_digits (int n) in replicate (w - length s) CHR ''0'' @ s)"

definition strftime_time :: "datetime \<Rightarrow> string" where
  "strftime_time t =
     zero_pad 2 (dt_hour t) @ '':'' @ zero_pad 2 (dt_minute t) @ '':'' @ zero_pad 2 (dt_second t)"

definition strftime_date_time :: "datetime \<Rightarrow> string" where
  "strftime_date_time t =
     zero_pad 4 (dt_year t) @ ''-'' @ zero_pad 2 (dt_month t) @ ''-'' @ zero_pad 2 (dt_day t)
     @ '' '' @ strftime_time t"

text \<open>
  \<^verbatim>\<open>
  report = f"""
  === SYSTEM HEALTH REPORT ===
  Timestamp: {datetime.now().strftime('%Y-%m-%d %H:%M:%S')}

  CPU Usage: {metrics['cpu_percent']:.1f}%
  Memory Usage: {metrics['memory']['percent']:.1f}% ({...['used']} GB / {...['total']} GB)

  Disk Usage:"""
  for mount, disk_data in metrics['disk'].items():
      report += f"\n  {mount}: {disk_data['percent']:.1f}% ({...} GB / {...} GB)"
  report += f"\n\nRunning Processes: {metrics['process_count']}"
  report += f"\n\nTop 5 Processes by CPU:"
  for proc in metrics['top_processes']:
      report += f"\n  PID {proc['pid']}: {proc['name']} - CPU: {proc['cpu_percent'] or 0:.1f}%,
                  Memory: {proc['memory_percent'] or 0:.1f}%"
  return report
  \<close>
  The clock is read once, in the header; \<open>now\<close> is what it returns. The two loops take
  the text \<open>report\<close> and return it longer.
\<close>

definition report_header :: "datetime \<Rightarrow> metrics \<Rightarrow> string" where
  "report_header now m =
     newline @ ''=== SYSTEM HEALTH REPORT ==='' @ newline
     @ ''Timestamp: '' @ strftime_date_time now @ newline
     @ newline
     @ ''CPU Usage: '' @ format_1f (cpu_percent m) @ ''%'' @ newline
     @ ''Memory Usage: '' @ format_1f (mem_percent (memory m)) @ ''% (''
     @ float_repr (mem_used (memory m)) @ '' GB / ''
     @ float_repr (mem_total (memory m)) @ '' GB)'' @ newline
     @ newline
     @ ''Disk Usage:''"

definition disk_line :: "string \<Rightarrow> disk_data \<Rightarrow> string" where
  "disk_line mount d =
     newline @ ''  '' @ mount @ '': '' @ format_1f (dsk_percent d) @ ''% (''
     @ float_repr (dsk_used d) @ '' GB / '' @ float_repr (dsk_total d) @ '' GB)''"

fun report_disks :: "(string \<times> disk_data) list \<Rightarrow> string \<Rightarrow> string" where
  "report_disks [] report = report"
| "report_disks ((mount, d) # rest) report = report_disks rest (report @ disk_line mount d)"

definition or_zero :: "rat option \<Rightarrow> rat" where
  "or_zero v = (case v of None \<Rightarrow> 0 | Some x \<Rightarrow> if x = 0 then 0 else x)"

definition str_name :: "string option \<Rightarrow> string" where
  "str_name v = (case v of None \<Rightarrow> ''None'' | Some s \<Rightarrow> s)"

definition process_line :: "proc_info \<Rightarrow> string" where
  "process_line proc =
     newline @ ''  PID '' @ py_str_int (proc_pid proc) @ '': '' @ str_name (proc_name proc)
     @ '' - CPU: '' @ format_1f (or_zero (proc_cpu_percent proc))
     @ ''%, Memory: '' @ format_1f (or_zero (proc_memory_percent proc)) @ ''%''"

fun report_processes :: "proc_info list \<Rightarrow> string \<Rightarrow> string" where
  "report_processes [] report = report"
| "report_processes (proc # rest) report = report_processes rest (report @ process_line proc)"

definition generate_report :: "datetime \<Rightarrow> metrics \<Rightarrow> string" where
  "generate_report now m =
     (let report = report_header now m;
          report = report_disks (disk m) report;
          report = report @ newline @ newline @ ''Running Processes: ''
                     @ py_str_int (int (process_count m));
          report = report @ newline @ newline @ ''Top 5 Processes by CPU:''
      in report_processes (top_processes m) report)"


section \<open>The sink and the cycle: \<open>send_alert\<close>, \<open>monitor_once\<close>\<close>

text \<open>
  What the monitor writes is a list of events, in the order of the calls: a record of
  the logger at a level, a call of \<open>print\<close> with its argument, and the start of
  \<open>time.sleep\<close>. The record of the thresholds carries the dictionary itself and not
  its text.
\<close>

datatype event =
    LogInfo string
  | LogWarning string
  | LogThresholds thresholds
  | Print string
  | Sleep int

text \<open>
  \<^verbatim>\<open>
  alert_msg = f"<U+1F6A8> ALERT [{alert_type}]: {message}"
  self.logger.warning(alert_msg)
  print(f"\n{alert_msg}\n")
  \<close>
\<close>

definition alert_msg :: "string \<Rightarrow> string \<Rightarrow> string" where
  "alert_msg alert_type message =
     [CHR 0xF0, CHR 0x9F, CHR 0x9A, CHR 0xA8] @ '' ALERT ['' @ alert_type @ '']: '' @ message"

definition send_alert :: "string \<Rightarrow> string \<Rightarrow> event list \<Rightarrow> event list" where
  "send_alert alert_type message out =
     out @ [LogWarning (alert_msg alert_type message),
            Print (newline @ alert_msg alert_type message @ newline)]"

text \<open>
  \<^verbatim>\<open>
  metrics = {'cpu_percent': self.get_cpu_usage(), 'memory': self.get_memory_usage(),
             'disk': self.get_disk_usage(), 'process_count': self.get_process_count(),
             'top_processes': self.get_top_processes()}
  alerts = self.check_thresholds(metrics)
  for alert in alerts:
      self.send_alert("THRESHOLD_EXCEEDED", alert)
  report = self.generate_report(metrics)
  self.logger.info("System health check completed")
  return metrics, alerts, report
  \<close>
  \<open>monitor_once\<close> takes the events written so far and returns them with its own, and
  its result or the exception that ended it.
\<close>

definition collect_metrics :: "host \<Rightarrow> error + metrics" where
  "collect_metrics h =
     (let c = get_cpu_usage h; mem = get_memory_usage h
      in bind_res (get_disk_usage h) (\<lambda>d.
           let n = get_process_count h
           in bind_res (get_top_processes h) (\<lambda>top.
                Inr \<lparr>cpu_percent = c, memory = mem, disk = d, process_count = n,
                     top_processes = top\<rparr>)))"

fun dispatch_alerts :: "string list \<Rightarrow> event list \<Rightarrow> event list" where
  "dispatch_alerts [] out = out"
| "dispatch_alerts (alert # rest) out =
     dispatch_alerts rest (send_alert ''THRESHOLD_EXCEEDED'' alert out)"

definition monitor_once ::
  "thresholds \<Rightarrow> host \<Rightarrow> event list
     \<Rightarrow> event list \<times> (error + metrics \<times> string list \<times> string)" where
  "monitor_once th h out =
     (case collect_metrics h of
        Inl e \<Rightarrow> (out, Inl e)
      | Inr m \<Rightarrow>
          (case check_thresholds th m of
             Inl e \<Rightarrow> (out, Inl e)
           | Inr alerts \<Rightarrow>
               let out = dispatch_alerts alerts out;
                   report = generate_report (report_time h) m;
                   out = out @ [LogInfo ''System health check completed'']
               in (out, Inr (m, alerts, report))))"

section \<open>The loop: \<open>monitor_continuous\<close>\<close>

text \<open>
  \<^verbatim>\<open>
  self.logger.info(f"Starting continuous monitoring (interval: {interval}s)")
  self.logger.info(f"Thresholds: {self.thresholds}")
  try:
      while True:
          metrics, alerts, report = self.monitor_once()
          if not alerts:
              print(f"<U+2705> System healthy - {datetime.now().strftime('%H:%M:%S')}")
          time.sleep(interval)
  except KeyboardInterrupt:
      self.logger.info("Monitoring stopped by user")
      print("\n<U+1F6D1> Monitoring stopped")
  \<close>
  \<open>loop_body\<close> is one pass of the loop on the readings \<open>h\<close>, from no events:
  \<open>time.sleep\<close> raises \<open>ValueError\<close> for a negative interval.

  Python raises \<open>KeyboardInterrupt\<close> in the main thread wherever the interrupt
  finds it, and the \<open>try\<close> statement encloses the whole loop. A \<open>signal\<close> says
  when the interrupt arrives: \<open>Some (j, k)\<close> is an interrupt during pass \<open>j\<close> of
  the loop (counted from 0), after that pass has written \<open>k\<close> of its events (after
  all of them when it has fewer); \<open>None\<close> is no interrupt. The model covers an
  interrupt that arrives inside the \<open>try\<close> statement.

  A \<open>KeyboardInterrupt\<close> that a reading of the host raises inside a pass reaches the
  same handler; every other exception of a pass ends \<open>monitor_continuous\<close>.

  The loop has no exit of its own, so \<open>run_loop\<close> takes fuel, one unit for a pass, and
  returns \<open>None\<close> when it runs out; \<open>hosts i\<close> are the readings of pass \<open>i\<close>.
\<close>

definition heartbeat :: "datetime \<Rightarrow> string" where
  "heartbeat now =
     [CHR 0xE2, CHR 0x9C, CHR 0x85] @ '' System healthy - '' @ strftime_time now"

definition loop_body :: "thresholds \<Rightarrow> int \<Rightarrow> host \<Rightarrow> event list \<times> (error + unit)" where
  "loop_body th interval h =
     (case monitor_once th h [] of
        (out, Inl e) \<Rightarrow> (out, Inl e)
      | (out, Inr (m, alerts, report)) \<Rightarrow>
          let out = (if alerts = [] then out @ [Print (heartbeat (heartbeat_time h))] else out)
          in if interval < 0 then (out, Inl ValueError)
             else (out @ [Sleep interval], Inr ()))"

definition stopped :: "event list" where
  "stopped =
     [LogInfo ''Monitoring stopped by user'',
      Print (newline @ [CHR 0xF0, CHR 0x9F, CHR 0x9B, CHR 0x91] @ '' Monitoring stopped'')]"

type_synonym signal = "(nat \<times> nat) option"

fun run_loop ::
  "nat \<Rightarrow> thresholds \<Rightarrow> int \<Rightarrow> (nat \<Rightarrow> host) \<Rightarrow> signal \<Rightarrow> nat \<Rightarrow> event list
     \<Rightarrow> (event list \<times> (error + unit)) option" where
  "run_loop 0 th interval hosts sig i out = None"
| "run_loop (Suc fuel) th interval hosts sig i out =
     (let (evs, r) = loop_body th interval (hosts i)
      in case (case sig of Some (j, k) \<Rightarrow> if j = i then Some k else None | None \<Rightarrow> None) of
           Some k \<Rightarrow> Some (out @ take k evs @ stopped, Inr ())
         | None \<Rightarrow>
             (case r of
                Inl e \<Rightarrow>
                  if e = KeyboardInterrupt then Some (out @ evs @ stopped, Inr ())
                  else Some (out @ evs, Inl e)
              | Inr u \<Rightarrow> run_loop fuel th interval hosts sig (Suc i) (out @ evs)))"

text \<open>The two records of the logger before the \<open>try\<close> statement.\<close>

definition starting :: "thresholds \<Rightarrow> int \<Rightarrow> event list" where
  "starting th interval =
     [LogInfo (''Starting continuous monitoring (interval: '' @ py_str_int interval @ ''s)''),
      LogThresholds th]"

definition monitor_continuous ::
  "nat \<Rightarrow> thresholds \<Rightarrow> int \<Rightarrow> (nat \<Rightarrow> host) \<Rightarrow> signal
     \<Rightarrow> (event list \<times> (error + unit)) option" where
  "monitor_continuous fuel th interval hosts sig =
     run_loop fuel th interval hosts sig 0 (starting th interval)"


section \<open>The recognized keys and some concrete readings\<close>

text \<open>The four keys that \<open>check_thresholds\<close> reads.\<close>

definition recognized_keys :: "string set" where
  "recognized_keys = {''cpu_percent'', ''memory_percent'', ''disk_percent'', ''max_processes''}"

text \<open>
  Metrics with the CPU at 95 percent and everything else under the default thresholds,
  and metrics where the CPU, one of two mounts and the process count are above them
  while the memory is exactly at its threshold.
\<close>

definition quiet_memory :: memory_info where
  "quiet_memory = \<lparr>mem_percent = 40, mem_used = 3.2, mem_total = 8, mem_available = 4.8\<rparr>"

definition full_disk :: disk_data where
  "full_disk = \<lparr>dsk_percent = 95, dsk_used = 95, dsk_total = 100, dsk_free = 5\<rparr>"

definition half_disk :: disk_data where
  "half_disk = \<lparr>dsk_percent = 50, dsk_used = 50, dsk_total = 100, dsk_free = 50\<rparr>"

definition busy_cpu_metrics :: metrics where
  "busy_cpu_metrics =
     \<lparr>cpu_percent = 95, memory = quiet_memory, disk = [(''/'', half_disk)],
      process_count = 120, top_processes = []\<rparr>"

definition loaded_metrics :: metrics where
  "loaded_metrics =
     \<lparr>cpu_percent = 95, memory = quiet_memory\<lparr>mem_percent := 85\<rparr>,
      disk = [(''/'', full_disk), (''/home'', half_disk)],
      process_count = 301, top_processes = []\<rparr>"

text \<open>
  The processes that were read: the elements of \<open>process_iter\<close> that are not
  exceptions, in their order. The exceptions that \<open>get_top_processes\<close> catches.
\<close>

definition readable :: "(error + 'a) list \<Rightarrow> 'a list" where
  "readable rs = concat (map (\<lambda>r. case r of Inr p \<Rightarrow> [p] | Inl e \<Rightarrow> []) rs)"

definition skipped :: "(error + 'a) \<Rightarrow> bool" where
  "skipped r = (r = Inl NoSuchProcess \<or> r = Inl AccessDenied)"

text \<open>
  A host with a busy CPU and memory, three mount points of which one cannot be read, and
  five processes of which one denies access; two of the processes have the same CPU
  percentage and one has none.
\<close>

definition proc_init :: proc_info where
  "proc_init = \<lparr>proc_pid = 1, proc_name = Some ''init'', proc_cpu_percent = Some (3 / 2),
                proc_memory_percent = Some (1 / 4)\<rparr>"

definition proc_db :: proc_info where
  "proc_db = \<lparr>proc_pid = 20, proc_name = Some ''db'', proc_cpu_percent = Some 40,
              proc_memory_percent = Some 12\<rparr>"

definition proc_idle :: proc_info where
  "proc_idle = \<lparr>proc_pid = 30, proc_name = None, proc_cpu_percent = None,
                proc_memory_percent = None\<rparr>"

definition proc_web :: proc_info where
  "proc_web = \<lparr>proc_pid = 40, proc_name = Some ''web'', proc_cpu_percent = Some 40,
               proc_memory_percent = Some 3\<rparr>"

definition root_usage :: usage where
  "root_usage = \<lparr>du_total = 107374182400, du_used = 53687091200, du_free = 53687091200\<rparr>"

definition example_disk_usage :: "string \<Rightarrow> error + usage" where
  "example_disk_usage mountpoint =
     (if mountpoint = ''/secret'' then Inl PermissionError else Inr root_usage)"

definition example_time :: datetime where
  "example_time = \<lparr>dt_year = 2024, dt_month = 3, dt_day = 9, dt_hour = 7, dt_minute = 5,
                   dt_second = 0\<rparr>"

definition later_time :: datetime where
  "later_time = example_time\<lparr>dt_second := 1\<rparr>"

definition example_host :: host where
  "example_host =
     \<lparr>cpu_reading = 95,
      virtual_memory = \<lparr>vm_percent = 90, vm_used = 7730941133, vm_total = 8589934592,
                         vm_available = 858993459\<rparr>,
      partitions = [''/'', ''/secret'', ''/data''],
      disk_usage = example_disk_usage,
      pids = [1, 20, 30, 40, 50],
      process_iter = [Inr proc_init, Inl AccessDenied, Inr proc_db, Inr proc_idle, Inr proc_web],
      report_time = example_time,
      heartbeat_time = later_time\<rparr>"

text \<open>The two kinds of events that \<open>send_alert\<close> writes.\<close>

fun is_warning :: "event \<Rightarrow> bool" where
  "is_warning (LogWarning s) = True"
| "is_warning e = False"

fun is_print :: "event \<Rightarrow> bool" where
  "is_print (Print s) = True"
| "is_print e = False"

text \<open>The metrics that \<open>monitor_once\<close> collects on the example host.\<close>

definition example_entry :: disk_data where
  "example_entry = \<lparr>dsk_percent = 50, dsk_used = 50, dsk_total = 100, dsk_free = 50\<rparr>"

definition example_metrics :: metrics where
  "example_metrics =
     \<lparr>cpu_percent = 95, memory = get_memory_usage example_host,
      disk = [(''/'', example_entry), (''/data'', example_entry)],
      process_count = 5,
      top_processes = [proc_db, proc_web, proc_init, proc_idle]\<rparr>"

text \<open>The passes of the loop, from the first, on the readings \<open>hosts\<close>.\<close>

definition passes :: "thresholds \<Rightarrow> int \<Rightarrow> (nat \<Rightarrow> host) \<Rightarrow> nat \<Rightarrow> event list" where
  "passes th interval hosts n =
     concat (map (\<lambda>i. fst (loop_body th interval (hosts i))) [0..<n])"


section \<open>Properties of the threshold configuration\<close>

lemma dict_of_members_absent:
  "k \<notin> fst ` set ms \<Longrightarrow> dict_of_members ms k = None"
  by (simp add: dict_of_members_def map_of_eq_None_iff)

lemma dict_of_members_last:
  assumes "ms = xs @ (k, v) # ys" and "k \<notin> fst ` set ys"
  shows "dict_of_members ms k = Some v"
proof -
  have "map_of (rev ys) k = None"
    using assms(2) by (simp add: map_of_eq_None_iff)
  then show ?thesis
    using assms(1) by (simp add: dict_of_members_def map_add_def)
qed

lemma default_thresholds_values:
  "default_thresholds ''cpu_percent'' = Some (PyFloat 80)"
  "default_thresholds ''memory_percent'' = Some (PyFloat 85)"
  "default_thresholds ''disk_percent'' = Some (PyFloat 90)"
  "default_thresholds ''max_processes'' = Some (PyInt 300)"
  by (simp_all add: default_thresholds_def)

lemma dom_default_thresholds:
  "dom default_thresholds =
     {''cpu_percent'', ''memory_percent'', ''disk_percent'', ''max_processes''}"
  by (auto simp: default_thresholds_def split: if_splits)

text \<open>
  The overlay of the thresholds (lines 19 to 31). The thresholds are the defaults \<open>cpu_percent = 80.0\<close>,
  \<open>memory_percent = 85.0\<close>, \<open>disk_percent = 90.0\<close>, \<open>max_processes = 300\<close>
  overlaid with the keys of the configuration's \<open>thresholds\<close> object: loading a
  document returns normally; a key that the object does not have keeps its default (and
  stays absent if it has none); a key that the object has takes the value of its last
  member for that key. When the file is missing, or the document has no \<open>thresholds\<close>
  member, these lines end normally with exactly the four defaults.
\<close>

theorem init_thresholds_overlay:
  "init_thresholds Missing = Inr default_thresholds
   \<and> init_thresholds (Document None) = Inr default_thresholds
   \<and> default_thresholds ''cpu_percent'' = Some (PyFloat 80)
   \<and> default_thresholds ''memory_percent'' = Some (PyFloat 85)
   \<and> default_thresholds ''disk_percent'' = Some (PyFloat 90)
   \<and> default_thresholds ''max_processes'' = Some (PyInt 300)
   \<and> dom default_thresholds =
        {''cpu_percent'', ''memory_percent'', ''disk_percent'', ''max_processes''}
   \<and> (\<exists>th. init_thresholds (Document (Some ms)) = Inr th
        \<and> (\<forall>k. k \<notin> fst ` set ms \<longrightarrow> th k = default_thresholds k)
        \<and> (\<forall>k v xs ys. ms = xs @ (k, v) # ys \<and> k \<notin> fst ` set ys \<longrightarrow> th k = Some v))"
proof -
  have a: "init_thresholds (Document None) = Inr default_thresholds"
    by (simp add: dict_update_def)
  let ?th = "dict_update default_thresholds (dict_of_members ms)"
  have b: "\<forall>k. k \<notin> fst ` set ms \<longrightarrow> ?th k = default_thresholds k"
    by (simp add: dict_update_def dict_of_members_absent)
  have c: "\<forall>k v xs ys. ms = xs @ (k, v) # ys \<and> k \<notin> fst ` set ys \<longrightarrow> ?th k = Some v"
    by (auto simp: dict_update_def dict_of_members_last)
  have d: "\<exists>th. init_thresholds (Document (Some ms)) = Inr th
        \<and> (\<forall>k. k \<notin> fst ` set ms \<longrightarrow> th k = default_thresholds k)
        \<and> (\<forall>k v xs ys. ms = xs @ (k, v) # ys \<and> k \<notin> fst ` set ys \<longrightarrow> th k = Some v)"
    using b c by (intro exI [of _ ?th] conjI) simp_all
  show ?thesis
    using a d default_thresholds_values dom_default_thresholds by simp
qed

theorem init_thresholds_overlay_witness:
  "\<exists>th. init_thresholds (Document (Some [(''cpu_percent'', PyInt 50)])) = Inr th
     \<and> th ''cpu_percent'' = Some (PyInt 50)
     \<and> th ''memory_percent'' = Some (PyFloat 85)
     \<and> th ''disk_percent'' = Some (PyFloat 90)
     \<and> th ''max_processes'' = Some (PyInt 300)"
proof -
  let ?ms = "[(''cpu_percent'', PyInt 50)]"
  from init_thresholds_overlay [of ?ms]
  obtain th where th: "init_thresholds (Document (Some ?ms)) = Inr th"
    and absent: "\<forall>k. k \<notin> fst ` set ?ms \<longrightarrow> th k = default_thresholds k"
    and present: "\<forall>k v xs ys. ?ms = xs @ (k, v) # ys \<and> k \<notin> fst ` set ys \<longrightarrow> th k = Some v"
    by blast
  have "?ms = [] @ (''cpu_percent'', PyInt 50) # [] \<and> ''cpu_percent'' \<notin> fst ` set []"
    by simp
  with present have "th ''cpu_percent'' = Some (PyInt 50)"
    by blast
  moreover from absent have "th ''memory_percent'' = Some (PyFloat 85)"
    "th ''disk_percent'' = Some (PyFloat 90)" "th ''max_processes'' = Some (PyInt 300)"
    by (simp_all add: default_thresholds_values)
  ultimately show ?thesis
    using th by blast
qed

section \<open>Startup\<close>

lemma import_spelling:
  "import_from email_mime_text_names ''MIMEText'' = Inr ()"
  "import_from email_mime_text_names ''MimeText'' = Inl ImportError"
  by (simp_all add: import_from_def email_mime_text_names_def)

lemma load_module_fails: "load_module psutil_installed = Inl ImportError"
  by (simp add: load_module_def bind_res_def import_spelling)

text \<open>
  With the module loaded, the constructor fails only on a configuration file that cannot
  be read or parsed, or on a log file that cannot be opened.
\<close>

lemma monitor_init_missing: "monitor_init True Missing = Inr default_thresholds"
  by (simp add: monitor_init_def bind_res_def)

text \<open>
  Claim C4 says that the loaded thresholds are the defaults overlaid with the keys of the
  configuration, and that with a missing configuration file the four thresholds are the
  defaults and startup does not fail. The overlay is as the claim says
  (\<open>init_thresholds_overlay\<close>), but the program does not start: with the
  configuration file missing, whether \<open>psutil\<close> is installed or not and whether the log
  file can be opened or not, startup ends with \<open>ImportError\<close>, raised by line 12 for
  the name \<open>MimeText\<close> (the module has \<open>MIMEText\<close>), before any threshold is set.
\<close>

theorem startup_missing_config:
  "startup psutil_installed log_file_opens Missing = Inl ImportError"
  by (simp add: startup_def bind_res_def load_module_fails)


section \<open>Properties of the evaluator\<close>

lemma bind_res_Inr [simp]: "bind_res (Inr v) f = f v"
  by (simp add: bind_res_def)

lemma bind_res_Inl [simp]: "bind_res (Inl e) f = Inl e"
  by (simp add: bind_res_def)

lemma check_disk_closed:
  assumes "threshold th ''disk_percent'' = Inr (t, ts)"
  shows "check_disk th ds alerts =
     Inr (alerts @ map (\<lambda>(mount, d). disk_alert mount (dsk_percent d) ts)
                    (filter (\<lambda>(mount, d). dsk_percent d > t) ds))"
  using assms by (induction ds arbitrary: alerts) auto

lemma check_thresholds_closed:
  assumes "threshold th ''cpu_percent'' = Inr (ct, cs)"
    and "threshold th ''memory_percent'' = Inr (mt, ms)"
    and "threshold th ''disk_percent'' = Inr (dt, ds)"
    and "threshold th ''max_processes'' = Inr (pt, ps)"
  shows "check_thresholds th m =
     Inr ((if cpu_percent m > ct then [cpu_alert (cpu_percent m) cs] else [])
        @ (if mem_percent (memory m) > mt then [memory_alert (mem_percent (memory m)) ms] else [])
        @ map (\<lambda>(mount, d). disk_alert mount (dsk_percent d) ds)
            (filter (\<lambda>(mount, d). dsk_percent d > dt) (disk m))
        @ (if of_nat (process_count m) > pt then [process_alert (process_count m) ps] else []))"
  using assms
  by (simp add: check_thresholds_def check_cpu_def check_memory_def check_process_count_def
      check_disk_closed)







lemma threshold_default:
  "threshold default_thresholds ''cpu_percent'' = Inr (80, ''80.0'')"
  "threshold default_thresholds ''memory_percent'' = Inr (85, ''85.0'')"
  "threshold default_thresholds ''disk_percent'' = Inr (90, ''90.0'')"
  "threshold default_thresholds ''max_processes'' = Inr (300, ''300'')"
  by code_simp+

lemma format_1f_examples:
  "format_1f 95 = ''95.0''"
  "format_1f 90 = ''90.0''"
  "format_1f 50 = ''50.0''"
  by code_simp+

lemma py_str_int_examples:
  "py_str_int 301 = ''301''"
  "py_str_int 120 = ''120''"
  by code_simp+




text \<open>
  Claim C2. With numeric thresholds, the alerts are in a fixed order, whatever the
  metrics: first the CPU alert if the CPU is above its threshold, then the memory alert
  if the memory is, then the alerts of the mounts that are, in the order of the disk
  dictionary, then the alert of the process count if it is.
\<close>

theorem check_thresholds_order:
  assumes "threshold th ''cpu_percent'' = Inr (ct, cs)"
    and "threshold th ''memory_percent'' = Inr (mt, ms)"
    and "threshold th ''disk_percent'' = Inr (dt, ds)"
    and "threshold th ''max_processes'' = Inr (pt, ps)"
  shows "check_thresholds th m =
     Inr ((if ct < cpu_percent m then [cpu_alert (cpu_percent m) cs] else [])
        @ (if mt < mem_percent (memory m)
           then [memory_alert (mem_percent (memory m)) ms] else [])
        @ map (\<lambda>(mount, d). disk_alert mount (dsk_percent d) ds)
            (filter (\<lambda>(mount, d). dt < dsk_percent d) (disk m))
        @ (if pt < of_nat (process_count m)
           then [process_alert (process_count m) ps] else []))"
  using assms by (rule check_thresholds_closed)

theorem check_thresholds_order_witness:
  "check_thresholds default_thresholds loaded_metrics =
     Inr [''High CPU usage: 95.0% (threshold: 80.0%)'',
          ''High disk usage on /: 95.0% (threshold: 90.0%)'',
          ''High process count: 301 (threshold: 300)'']"
  using check_thresholds_order [OF threshold_default, of loaded_metrics]
  by (simp add: loaded_metrics_def quiet_memory_def full_disk_def half_disk_def
      cpu_alert_def disk_alert_def process_alert_def format_1f_examples py_str_int_examples)

text \<open>
  Claim C8. For metrics with the CPU at 95.0 percent and no other metric above its
  default threshold, \<open>check_thresholds\<close> with the default thresholds returns exactly
  one alert; its text shows the value as \<open>95.0\<close> and the threshold as \<open>80.0\<close>.
\<close>

theorem check_thresholds_cpu_only:
  assumes "cpu_percent m = 95"
    and "mem_percent (memory m) \<le> 85"
    and "\<forall>(mount, d) \<in> set (disk m). dsk_percent d \<le> 90"
    and "process_count m \<le> 300"
  shows "check_thresholds default_thresholds m =
     Inr [''High CPU usage: 95.0% (threshold: 80.0%)'']"
proof -
  from assms(3) have "filter (\<lambda>(mount, d). 90 < dsk_percent d) (disk m) = []"
    by (auto simp: filter_empty_conv)
  with assms(1,2,4) check_thresholds_closed [OF threshold_default, of m] show ?thesis
    by (simp add: cpu_alert_def format_1f_examples)
qed

theorem check_thresholds_cpu_only_witness:
  "cpu_percent busy_cpu_metrics = 95
   \<and> check_thresholds default_thresholds busy_cpu_metrics =
       Inr [''High CPU usage: 95.0% (threshold: 80.0%)'']"
proof -
  have "check_thresholds default_thresholds busy_cpu_metrics =
       Inr [''High CPU usage: 95.0% (threshold: 80.0%)'']"
    by (rule check_thresholds_cpu_only)
      (simp_all add: busy_cpu_metrics_def quiet_memory_def half_disk_def)
  then show ?thesis
    by (simp add: busy_cpu_metrics_def)
qed

lemma threshold_cong:
  "th k = th' k \<Longrightarrow> threshold th k = threshold th' k"
  by (simp add: threshold_def dict_get_def)

lemma check_disk_cong:
  assumes "th ''disk_percent'' = th' ''disk_percent''"
  shows "check_disk th ds alerts = check_disk th' ds alerts"
proof -
  from assms have t: "threshold th ''disk_percent'' = threshold th' ''disk_percent''"
    by (rule threshold_cong)
  show ?thesis
  proof (induction ds arbitrary: alerts)
    case Nil
    show ?case by simp
  next
    case (Cons a ds)
    obtain mount d where "a = (mount, d)"
      by (cases a)
    with Cons show ?case
      by (simp add: t)
  qed
qed

lemma check_thresholds_cong:
  assumes "\<forall>k \<in> recognized_keys. th k = th' k"
  shows "check_thresholds th m = check_thresholds th' m"
proof -
  from assms have eq: "th ''cpu_percent'' = th' ''cpu_percent''"
    "th ''memory_percent'' = th' ''memory_percent''"
    "th ''max_processes'' = th' ''max_processes''"
    "th ''disk_percent'' = th' ''disk_percent''"
    by (simp_all add: recognized_keys_def)
  have "threshold th ''cpu_percent'' = threshold th' ''cpu_percent''"
    "threshold th ''memory_percent'' = threshold th' ''memory_percent''"
    "threshold th ''max_processes'' = threshold th' ''max_processes''"
    by (rule threshold_cong, rule eq)+
  moreover have "check_disk th ds alerts = check_disk th' ds alerts" for ds alerts
    using eq(4) by (rule check_disk_cong)
  ultimately show ?thesis
    by (simp add: check_thresholds_def check_cpu_def check_memory_def
        check_process_count_def)
qed

lemma map_of_filter_keys:
  "map_of (filter (\<lambda>(k, v). k \<in> S) xs) k = (if k \<in> S then map_of xs k else None)"
  by (induction xs) auto

lemma dict_of_members_filter:
  "dict_of_members (filter (\<lambda>(k, v). k \<in> S) ms) k
     = (if k \<in> S then dict_of_members ms k else None)"
  by (simp add: dict_of_members_def rev_filter map_of_filter_keys)

text \<open>
  The keys that are not recognized (lines 19 to 31 and the evaluator). Building the
  thresholds from a document whose \<open>thresholds\<close> object has keys other than the four
  recognized ones ends normally. Every key of the object is in the loaded
  dictionary, with the value of its last member, whatever that value is. The evaluator
  returns the same for every metrics as with the thresholds loaded from the document
  without the unrecognized members, in which no unrecognized key is present.
\<close>

theorem unrecognized_keys_ignored:
  "\<exists>th th'.
     init_thresholds (Document (Some ms)) = Inr th
     \<and> init_thresholds (Document (Some (filter (\<lambda>(k, v). k \<in> recognized_keys) ms))) = Inr th'
     \<and> (\<forall>k v xs ys. ms = xs @ (k, v) # ys \<and> k \<notin> fst ` set ys \<longrightarrow> th k = Some v)
     \<and> (\<forall>k. k \<notin> recognized_keys \<longrightarrow> th' k = None)
     \<and> (\<forall>m. check_thresholds th m = check_thresholds th' m)"
proof -
  let ?th = "dict_update default_thresholds (dict_of_members ms)"
  let ?th' = "dict_update default_thresholds
     (dict_of_members (filter (\<lambda>(k, v). k \<in> recognized_keys) ms))"
  have a: "\<forall>k v xs ys. ms = xs @ (k, v) # ys \<and> k \<notin> fst ` set ys \<longrightarrow> ?th k = Some v"
    by (auto simp: dict_update_def dict_of_members_last)
  have "default_thresholds k = None" if "k \<notin> recognized_keys" for k
    using that dom_default_thresholds by (auto simp: recognized_keys_def)
  then have b: "\<forall>k. k \<notin> recognized_keys \<longrightarrow> ?th' k = None"
    by (simp add: dict_update_def dict_of_members_filter)
  have "\<forall>k \<in> recognized_keys. ?th k = ?th' k"
    by (simp add: dict_update_def dict_of_members_filter)
  then have c: "\<forall>m. check_thresholds ?th m = check_thresholds ?th' m"
    using check_thresholds_cong by blast
  have i: "init_thresholds (Document (Some ms)) = Inr ?th"
    by simp
  have i': "init_thresholds (Document (Some (filter (\<lambda>(k, v). k \<in> recognized_keys) ms)))
      = Inr ?th'"
    by simp
  from i i' a b c show ?thesis
    by (intro exI [of _ ?th] exI [of _ ?th'] conjI)
qed

theorem unrecognized_keys_ignored_witness:
  "\<exists>th th'.
     init_thresholds
       (Document (Some [(''cpu_percent'', PyInt 50), (''gpu_percent'', PyStr ''high'')])) = Inr th
     \<and> init_thresholds (Document (Some [(''cpu_percent'', PyInt 50)])) = Inr th'
     \<and> th ''gpu_percent'' = Some (PyStr ''high'')
     \<and> th' ''gpu_percent'' = None
     \<and> check_thresholds th busy_cpu_metrics = check_thresholds th' busy_cpu_metrics"
proof -
  let ?ms = "[(''cpu_percent'', PyInt 50), (''gpu_percent'', PyStr ''high'')]"
  have f: "filter (\<lambda>(k, v). k \<in> recognized_keys) ?ms = [(''cpu_percent'', PyInt 50)]"
    by (simp add: recognized_keys_def)
  have g: "?ms = [(''cpu_percent'', PyInt 50)] @ (''gpu_percent'', PyStr ''high'') # []
      \<and> ''gpu_percent'' \<notin> fst ` set []"
    by simp
  have n: "''gpu_percent'' \<notin> recognized_keys"
    by (simp add: recognized_keys_def)
  let ?P = "\<lambda>th th'. init_thresholds (Document (Some ?ms)) = Inr th
     \<and> init_thresholds (Document (Some (filter (\<lambda>(k, v). k \<in> recognized_keys) ?ms))) = Inr th'
     \<and> (\<forall>k v xs ys. ?ms = xs @ (k, v) # ys \<and> k \<notin> fst ` set ys \<longrightarrow> th k = Some v)
     \<and> (\<forall>k. k \<notin> recognized_keys \<longrightarrow> th' k = None)
     \<and> (\<forall>m. check_thresholds th m = check_thresholds th' m)"
  from unrecognized_keys_ignored [of ?ms] obtain th where "\<exists>th'. ?P th th'" ..
  then obtain th' where p: "?P th th'" ..
  note p2 = p [THEN conjunct2]
  note p3 = p2 [THEN conjunct2]
  note p4 = p3 [THEN conjunct2]
  have 1: "init_thresholds (Document (Some ?ms)) = Inr th"
    by (rule p [THEN conjunct1])
  have 2: "init_thresholds (Document (Some [(''cpu_percent'', PyInt 50)])) = Inr th'"
    using p2 [THEN conjunct1] by (simp only: f)
  have 3: "th ''gpu_percent'' = Some (PyStr ''high'')"
    using p3 [THEN conjunct1, rule_format, OF g] .
  have 4: "th' ''gpu_percent'' = None"
    using p4 [THEN conjunct1, rule_format, OF n] .
  have 5: "check_thresholds th busy_cpu_metrics = check_thresholds th' busy_cpu_metrics"
    using p4 [THEN conjunct2] by (rule spec)
  from 1 2 3 4 5 show ?thesis
    by (intro exI [of _ th] exI [of _ th'] conjI)
qed

text \<open>
  Claim C10 says that with a configuration whose \<open>thresholds\<close> object has keys that
  are not recognized startup succeeds, the keys being merged without validation, and
  that the evaluator returns what it returns without them. The merge and the evaluator
  are as the claim says (\<open>unrecognized_keys_ignored\<close>), but startup does not succeed:
  for every such configuration it ends with \<open>ImportError\<close>, raised by line 12 when
  the module is loaded.
\<close>

theorem startup_unrecognized_keys:
  "startup psutil_installed log_file_opens (Document (Some ms)) = Inl ImportError"
  by (simp add: startup_def bind_res_def load_module_fails)

text \<open>
  The values are merged as they are: with a threshold that is not a number the
  comparison, and with it the evaluator, raises.
\<close>

lemma check_thresholds_not_numeric:
  "check_thresholds (default_thresholds(''cpu_percent'' \<mapsto> PyStr ''high'')) m = Inl TypeError"
  by (simp add: check_thresholds_def check_cpu_def threshold_def dict_get_def)


section \<open>Properties of the collection of the disks\<close>

lemma disk_entry_Inr:
  "disk_entry u = Inr d \<longleftrightarrow>
     du_total u \<noteq> 0
     \<and> d = \<lparr>dsk_percent = float_mul (to_double (of_int (du_used u) / of_int (du_total u))) 100,
            dsk_used = bytes_to_gb (du_used u),
            dsk_total = bytes_to_gb (du_total u),
            dsk_free = bytes_to_gb (du_free u)\<rparr>"
  by (auto simp: disk_entry_def int_true_div_def)

lemma disk_entry_Inl:
  "disk_entry u = Inl e \<longleftrightarrow> du_total u = 0 \<and> e = ZeroDivisionError"
  by (auto simp: disk_entry_def int_true_div_def)

text \<open>The loop ends normally exactly when every read is skipped or has an entry.\<close>

lemma get_disk_usage_from_returns:
  "(\<exists>m. get_disk_usage_from du ps disk_info = Inr m) \<longleftrightarrow>
     (\<forall>mp \<in> set ps. du mp = Inl PermissionError \<or> (\<exists>u. du mp = Inr u \<and> du_total u \<noteq> 0))"
proof (induction ps arbitrary: disk_info)
  case Nil
  show ?case by simp
next
  case (Cons mp ps)
  show ?case
  proof (cases "du mp")
    case (Inl e)
    with Cons show ?thesis by simp
  next
    case (Inr u)
    show ?thesis
    proof (cases "disk_entry u")
      case (Inl e)
      then have "du_total u = 0" and "e \<noteq> PermissionError"
        by (simp_all add: disk_entry_Inl)
      with Inr Inl show ?thesis by simp
    next
      case d: (Inr d)
      then have "du_total u \<noteq> 0" by (simp add: disk_entry_Inr)
      with Inr d Cons show ?thesis by simp
    qed
  qed
qed

lemma get_disk_usage_from_skip:
  "get_disk_usage_from du (filter (\<lambda>mp. du mp \<noteq> Inl PermissionError) ps) disk_info
     = get_disk_usage_from du ps disk_info"
  by (induction ps arbitrary: disk_info) (auto split: sum.splits)

lemma get_disk_usage_from_lookup:
  assumes "get_disk_usage_from du ps disk_info = Inr m"
  shows "map_of m mp =
     (if mp \<in> set ps \<and> (\<exists>u. du mp = Inr u)
      then (case bind_res (du mp) disk_entry of Inr d \<Rightarrow> Some d | Inl e \<Rightarrow> None)
      else map_of disk_info mp)"
  using assms
proof (induction ps arbitrary: disk_info)
  case Nil
  then show ?case by simp
next
  case (Cons p ps)
  show ?case
  proof (cases "bind_res (du p) disk_entry")
    case (Inr d)
    with Cons.prems have "get_disk_usage_from du ps (AList.update p d disk_info) = Inr m"
      by simp
    from Cons.IH [OF this] Inr show ?thesis
      by (auto simp: update_conv' bind_res_def split: sum.splits)
  next
    case (Inl e)
    with Cons.prems have e: "e = PermissionError"
      and "get_disk_usage_from du ps disk_info = Inr m"
      by (simp_all split: if_splits)
    from Cons.IH [OF this(2)] Inl e show ?thesis
      by (auto simp: bind_res_def disk_entry_Inl split: sum.splits)
  qed
qed

lemma get_disk_usage_from_distinct:
  assumes "get_disk_usage_from du ps disk_info = Inr m" and "distinct (map fst disk_info)"
  shows "distinct (map fst m)"
  using assms
proof (induction ps arbitrary: disk_info)
  case Nil
  then show ?case by simp
next
  case (Cons p ps)
  show ?case
  proof (cases "bind_res (du p) disk_entry")
    case (Inr d)
    with Cons.prems(1) have "get_disk_usage_from du ps (AList.update p d disk_info) = Inr m"
      by simp
    moreover from Cons.prems(2) have "distinct (map fst (AList.update p d disk_info))"
      by (simp add: distinct_update)
    ultimately show ?thesis
      by (rule Cons.IH)
  next
    case (Inl e)
    with Cons.prems(1) have "get_disk_usage_from du ps disk_info = Inr m"
      by (simp split: if_splits)
    from this Cons.prems(2) show ?thesis
      by (rule Cons.IH)
  qed
qed

text \<open>
  Claim C6. A mount point whose read raises \<open>PermissionError\<close> is skipped without
  ending the collection: \<open>get_disk_usage\<close> returns (or raises) the same as on the
  partitions without those mount points. In the dictionary that it returns, the keys are
  the mount points that were read: a mount point whose read raised \<open>PermissionError\<close>
  is not a key, and a mount point that was read has the entry with
  \<open>percent = (used / total) * 100\<close> in floating point and the three sizes in GB.
  The collection returns a dictionary exactly when every read either raises
  \<open>PermissionError\<close> or returns a total that is not zero.
\<close>

theorem get_disk_usage_entries:
  "get_disk_usage (h\<lparr>partitions :=
       filter (\<lambda>mp. disk_usage h mp \<noteq> Inl PermissionError) (partitions h)\<rparr>)
     = get_disk_usage h
   \<and> ((\<exists>m. get_disk_usage h = Inr m) \<longleftrightarrow>
        (\<forall>mp \<in> set (partitions h). disk_usage h mp = Inl PermissionError
            \<or> (\<exists>u. disk_usage h mp = Inr u \<and> du_total u \<noteq> 0)))
   \<and> (\<forall>m. get_disk_usage h = Inr m \<longrightarrow>
        distinct (map fst m)
        \<and> (\<forall>mp. disk_usage h mp = Inl PermissionError \<longrightarrow> mp \<notin> fst ` set m)
        \<and> (\<forall>mp u. mp \<in> set (partitions h) \<and> disk_usage h mp = Inr u \<longrightarrow>
              map_of m mp =
                Some \<lparr>dsk_percent =
                        float_mul (to_double (of_int (du_used u) / of_int (du_total u))) 100,
                      dsk_used = bytes_to_gb (du_used u),
                      dsk_total = bytes_to_gb (du_total u),
                      dsk_free = bytes_to_gb (du_free u)\<rparr>)
        \<and> (\<forall>mp d. (mp, d) \<in> set m \<longrightarrow>
              mp \<in> set (partitions h) \<and> (\<exists>u. disk_usage h mp = Inr u)))"
proof -
  have a: "get_disk_usage (h\<lparr>partitions :=
       filter (\<lambda>mp. disk_usage h mp \<noteq> Inl PermissionError) (partitions h)\<rparr>)
     = get_disk_usage h"
    by (simp add: get_disk_usage_def get_disk_usage_from_skip)
  have b: "(\<exists>m. get_disk_usage h = Inr m) \<longleftrightarrow>
        (\<forall>mp \<in> set (partitions h). disk_usage h mp = Inl PermissionError
            \<or> (\<exists>u. disk_usage h mp = Inr u \<and> du_total u \<noteq> 0))"
    unfolding get_disk_usage_def by (rule get_disk_usage_from_returns)
  have c: "distinct (map fst m)
        \<and> (\<forall>mp. disk_usage h mp = Inl PermissionError \<longrightarrow> mp \<notin> fst ` set m)
        \<and> (\<forall>mp u. mp \<in> set (partitions h) \<and> disk_usage h mp = Inr u \<longrightarrow>
              map_of m mp =
                Some \<lparr>dsk_percent =
                        float_mul (to_double (of_int (du_used u) / of_int (du_total u))) 100,
                      dsk_used = bytes_to_gb (du_used u),
                      dsk_total = bytes_to_gb (du_total u),
                      dsk_free = bytes_to_gb (du_free u)\<rparr>)
        \<and> (\<forall>mp d. (mp, d) \<in> set m \<longrightarrow>
              mp \<in> set (partitions h) \<and> (\<exists>u. disk_usage h mp = Inr u))"
    if m: "get_disk_usage h = Inr m" for m
  proof -
    from m have loop: "get_disk_usage_from (disk_usage h) (partitions h) [] = Inr m"
      by (simp add: get_disk_usage_def)
    note look = get_disk_usage_from_lookup [OF loop]
    have d: "distinct (map fst m)"
      using loop by (rule get_disk_usage_from_distinct) simp
    have ok: "du_total u \<noteq> 0" if "mp \<in> set (partitions h)" and "disk_usage h mp = Inr u" for mp u
      using that b m by auto
    have 1: "mp \<notin> fst ` set m" if "disk_usage h mp = Inl PermissionError" for mp
    proof -
      from that look [of mp] have "map_of m mp = None"
        by simp
      then show ?thesis
        by (simp add: map_of_eq_None_iff)
    qed
    have 2: "map_of m mp =
                Some \<lparr>dsk_percent =
                        float_mul (to_double (of_int (du_used u) / of_int (du_total u))) 100,
                      dsk_used = bytes_to_gb (du_used u),
                      dsk_total = bytes_to_gb (du_total u),
                      dsk_free = bytes_to_gb (du_free u)\<rparr>"
      if "mp \<in> set (partitions h)" and "disk_usage h mp = Inr u" for mp u
      using that ok [OF that] look [of mp]
      by (simp add: disk_entry_def int_true_div_def)
    have 3: "mp \<in> set (partitions h) \<and> (\<exists>u. disk_usage h mp = Inr u)" if "(mp, d) \<in> set m" for mp d
    proof -
      from that d have "map_of m mp = Some d"
        by simp
      with look [of mp] show ?thesis
        by (simp split: if_splits)
    qed
    from d 1 2 3 show ?thesis
      by blast
  qed
  from a b c show ?thesis
    by blast
qed

section \<open>Properties of the selection of the top processes\<close>

lemma read_processes_readable:
  assumes "\<forall>r \<in> set rs. (\<exists>p. r = Inr p) \<or> skipped r"
  shows "read_processes rs processes = Inr (processes @ readable rs)"
  using assms
proof (induction rs arbitrary: processes)
  case Nil
  show ?case by (simp add: readable_def)
next
  case (Cons r rs)
  then have ih: "read_processes rs ps = Inr (ps @ readable rs)" for ps
    by simp
  from Cons.prems have "(\<exists>p. r = Inr p) \<or> skipped r"
    by simp
  then show ?case
    by (auto simp: ih readable_def skipped_def)
qed

lemma mset_sorted_reverse: "mset (sorted_reverse key xs) = mset xs"
  by (simp add: sorted_reverse_def)

lemma sorted_sorted_reverse:
  "sorted_wrt (\<lambda>a b. key b \<le> key a) (sorted_reverse key xs)"
proof -
  have "sorted (map key (sort_key key (rev xs)))"
    by (rule sorted_sort_key)
  then have "sorted_wrt (\<lambda>a b. key a \<le> key b) (sort_key key (rev xs))"
    by (simp add: sorted_map)
  then show ?thesis
    by (simp add: sorted_reverse_def sorted_wrt_rev)
qed

lemma stable_sorted_reverse:
  "filter (\<lambda>x. key x = k) (sorted_reverse key xs) = filter (\<lambda>x. key x = k) xs"
proof -
  have "filter (\<lambda>x. key x = k) (sort_key key (rev xs)) = filter (\<lambda>x. key x = k) (rev xs)"
    by (rule sort_key_stable)
  then show ?thesis
    by (simp add: sorted_reverse_def rev_filter [symmetric])
qed

lemma slice_to_nonneg: "0 \<le> limit \<Longrightarrow> slice_to xs limit = take (nat limit) xs"
  by (simp add: slice_to_def)

lemma cpu_key_or_zero:
  "cpu_key = (\<lambda>x. case proc_cpu_percent x of None \<Rightarrow> 0 | Some c \<Rightarrow> c)"
  by (auto simp: cpu_key_def fun_eq_iff split: option.splits)

text \<open>
  Claim C5. For a limit that is a count (not negative), and reads of the processes that
  return or raise one of the two exceptions caught, \<open>get_top_processes\<close> returns at
  most \<open>limit\<close> entries: the first \<open>limit\<close> elements (all when there are fewer) of a
  list \<open>top @ rest\<close> that is a permutation of the processes read, is in descending
  order of \<open>cpu_percent\<close> with an absent one counted as 0, and keeps the processes of
  equal key in the order in which they were read. Without an argument the limit is 5.
\<close>

theorem get_top_processes_limit_sorted:
  assumes "0 \<le> limit"
    and "\<forall>r \<in> set (process_iter h). (\<exists>p. r = Inr p) \<or> skipped r"
  shows "get_top_processes h = get_top_processes_limit h 5
     \<and> (\<exists>top rest. get_top_processes_limit h limit = Inr top
     \<and> int (length top) \<le> limit
     \<and> length top = min (nat limit) (length (readable (process_iter h)))
     \<and> mset (top @ rest) = mset (readable (process_iter h))
     \<and> sorted_wrt
          (\<lambda>a b. (case proc_cpu_percent b of None \<Rightarrow> 0 | Some c \<Rightarrow> c)
                   \<le> (case proc_cpu_percent a of None \<Rightarrow> 0 | Some c \<Rightarrow> c))
          (top @ rest)
     \<and> (\<forall>k. filter (\<lambda>x. (case proc_cpu_percent x of None \<Rightarrow> 0 | Some c \<Rightarrow> c) = k)
                (top @ rest)
              = filter (\<lambda>x. (case proc_cpu_percent x of None \<Rightarrow> 0 | Some c \<Rightarrow> c) = k)
                  (readable (process_iter h))))"
proof -
  let ?key = "\<lambda>x. case proc_cpu_percent x of None \<Rightarrow> 0 | Some c \<Rightarrow> c"
  let ?ps = "readable (process_iter h)"
  let ?s = "sorted_reverse ?key ?ps"
  let ?top = "take (nat limit) ?s" and ?rest = "drop (nat limit) ?s"
  have 0: "get_top_processes h = get_top_processes_limit h 5"
    by (simp add: get_top_processes_def)
  have "read_processes (process_iter h) [] = Inr ?ps"
    using read_processes_readable [OF assms(2), of "[]"] by simp
  with assms(1) have 1: "get_top_processes_limit h limit = Inr ?top"
    by (simp add: get_top_processes_limit_def bind_res_def slice_to_nonneg cpu_key_or_zero)
  have "length ?s = length ?ps"
    using mset_sorted_reverse [of ?key ?ps] by (metis size_mset)
  then have 3: "length ?top = min (nat limit) (length ?ps)"
    by simp
  with assms(1) have 2: "int (length ?top) \<le> limit"
    by simp
  have s: "?top @ ?rest = ?s"
    by simp
  have 4: "mset (?top @ ?rest) = mset ?ps"
    unfolding s by (rule mset_sorted_reverse)
  have 5: "sorted_wrt (\<lambda>a b. ?key b \<le> ?key a) (?top @ ?rest)"
    unfolding s by (rule sorted_sorted_reverse)
  have 6: "\<forall>k. filter (\<lambda>x. ?key x = k) (?top @ ?rest) = filter (\<lambda>x. ?key x = k) ?ps"
    unfolding s by (simp add: stable_sorted_reverse)
  from 1 2 3 4 5 6 have "\<exists>top rest. get_top_processes_limit h limit = Inr top
     \<and> int (length top) \<le> limit
     \<and> length top = min (nat limit) (length ?ps)
     \<and> mset (top @ rest) = mset ?ps
     \<and> sorted_wrt (\<lambda>a b. ?key b \<le> ?key a) (top @ rest)
     \<and> (\<forall>k. filter (\<lambda>x. ?key x = k) (top @ rest) = filter (\<lambda>x. ?key x = k) ?ps)"
    by (intro exI [of _ ?top] exI [of _ ?rest] conjI)
  with 0 show ?thesis
    by (rule conjI)
qed


lemma root_usage_entry:
  "float_mul (to_double (of_int (du_used root_usage) / of_int (du_total root_usage))) 100 = 50"
  "bytes_to_gb (du_used root_usage) = 50"
  "bytes_to_gb (du_total root_usage) = 100"
  "bytes_to_gb (du_free root_usage) = 50"
  by code_simp+

theorem get_disk_usage_entries_witness:
  "\<exists>m. get_disk_usage example_host = Inr m
     \<and> map_of m ''/'' =
         Some \<lparr>dsk_percent = 50, dsk_used = 50, dsk_total = 100, dsk_free = 50\<rparr>
     \<and> ''/secret'' \<notin> fst ` set m"
proof -
  note t = get_disk_usage_entries [of example_host, THEN conjunct2]
  have "\<forall>mp \<in> set (partitions example_host).
      disk_usage example_host mp = Inl PermissionError
      \<or> (\<exists>u. disk_usage example_host mp = Inr u \<and> du_total u \<noteq> 0)"
    by (simp add: example_host_def example_disk_usage_def root_usage_def)
  from t [THEN conjunct1, THEN iffD2, OF this]
  obtain m where m: "get_disk_usage example_host = Inr m" ..
  note c = t [THEN conjunct2, THEN spec, THEN mp, OF m, THEN conjunct2]
  have r: "''/'' \<in> set (partitions example_host) \<and> disk_usage example_host ''/'' = Inr root_usage"
    by (simp add: example_host_def example_disk_usage_def)
  have s: "disk_usage example_host ''/secret'' = Inl PermissionError"
    by (simp add: example_host_def example_disk_usage_def)
  have 1: "''/secret'' \<notin> fst ` set m"
    using c [THEN conjunct1, THEN spec, THEN mp, OF s] .
  have 2: "map_of m ''/'' =
         Some \<lparr>dsk_percent = 50, dsk_used = 50, dsk_total = 100, dsk_free = 50\<rparr>"
    using c [THEN conjunct2, THEN conjunct1, THEN spec, THEN spec, THEN mp, OF r]
    by (simp only: root_usage_entry)
  from m 2 1 show ?thesis
    by (intro exI [of _ m] conjI)
qed

text \<open>
  The collection ends with an exception when a mount point that was read has the total
  zero, and when a read raises another exception than \<open>PermissionError\<close>.
\<close>

lemma get_disk_usage_zero_total:
  "get_disk_usage (example_host\<lparr>disk_usage := (\<lambda>mp. Inr \<lparr>du_total = 0, du_used = 0, du_free = 0\<rparr>)\<rparr>)
     = Inl ZeroDivisionError"
  by (simp add: get_disk_usage_def example_host_def disk_entry_def int_true_div_def)

lemma get_disk_usage_other_error:
  "get_disk_usage (example_host\<lparr>disk_usage := (\<lambda>mp. if mp = ''/data'' then Inl OSError else Inr root_usage)\<rparr>)
     = Inl OSError"
  by (simp add: get_disk_usage_def example_host_def disk_entry_def int_true_div_def root_usage_def)

lemma readable_example:
  "readable (process_iter example_host) = [proc_init, proc_db, proc_idle, proc_web]"
  by (simp add: readable_def example_host_def)

lemma cpu_key_examples:
  "cpu_key proc_init = 3 / 2" "cpu_key proc_db = 40" "cpu_key proc_idle = 0" "cpu_key proc_web = 40"
  by (simp_all add: cpu_key_def proc_init_def proc_db_def proc_idle_def proc_web_def)

lemma sorted_reverse_example:
  "sorted_reverse cpu_key [proc_init, proc_db, proc_idle, proc_web]
     = [proc_db, proc_web, proc_init, proc_idle]"
  by (simp add: sorted_reverse_def cpu_key_examples)

lemma get_top_processes_limit_example:
  "get_top_processes_limit example_host limit =
     Inr (slice_to [proc_db, proc_web, proc_init, proc_idle] limit)"
proof -
  have "\<forall>r \<in> set (process_iter example_host). (\<exists>p. r = Inr p) \<or> skipped r"
    by (simp add: example_host_def skipped_def)
  from read_processes_readable [OF this, of "[]"] show ?thesis
    by (simp add: get_top_processes_limit_def readable_example sorted_reverse_example)
qed

theorem get_top_processes_limit_sorted_witness:
  "get_top_processes example_host = Inr [proc_db, proc_web, proc_init, proc_idle]
   \<and> get_top_processes_limit example_host 2 = Inr [proc_db, proc_web]
   \<and> (\<exists>top rest. get_top_processes_limit example_host 2 = Inr top
     \<and> length top = 2
     \<and> mset (top @ rest) = mset [proc_init, proc_db, proc_idle, proc_web]
     \<and> filter (\<lambda>x. (case proc_cpu_percent x of None \<Rightarrow> 0 | Some c \<Rightarrow> c) = 40) (top @ rest)
           = [proc_db, proc_web])"
proof -
  have l: "(0::int) \<le> 2"
    by simp
  have r: "\<forall>r \<in> set (process_iter example_host). (\<exists>p. r = Inr p) \<or> skipped r"
    by (simp add: example_host_def skipped_def)
  let ?key = "\<lambda>x. case proc_cpu_percent x of None \<Rightarrow> 0 | Some c \<Rightarrow> c"
  let ?ps = "readable (process_iter example_host)"
  let ?P = "\<lambda>top rest. get_top_processes_limit example_host 2 = Inr top
     \<and> int (length top) \<le> 2
     \<and> length top = min (nat 2) (length ?ps)
     \<and> mset (top @ rest) = mset ?ps
     \<and> sorted_wrt (\<lambda>a b. ?key b \<le> ?key a) (top @ rest)
     \<and> (\<forall>k. filter (\<lambda>x. ?key x = k) (top @ rest) = filter (\<lambda>x. ?key x = k) ?ps)"
  note t = get_top_processes_limit_sorted [OF l r]
  from t [THEN conjunct2] obtain top where "\<exists>rest. ?P top rest" ..
  then obtain rest where p: "?P top rest" ..
  note p2 = p [THEN conjunct2, THEN conjunct2]
  note p3 = p2 [THEN conjunct2]
  have 1: "get_top_processes_limit example_host 2 = Inr top"
    by (rule p [THEN conjunct1])
  have 2: "length top = 2"
    using p2 [THEN conjunct1] by (simp add: readable_example)
  have 3: "mset (top @ rest) = mset [proc_init, proc_db, proc_idle, proc_web]"
    using p3 [THEN conjunct1] by (simp only: readable_example)
  have 4: "filter (\<lambda>x. ?key x = 40) (top @ rest) = [proc_db, proc_web]"
    using p3 [THEN conjunct2, THEN conjunct2, THEN spec, of 40]
    by (simp add: readable_example proc_init_def proc_db_def proc_idle_def proc_web_def)
  from 1 2 3 4 have e: "\<exists>top rest. get_top_processes_limit example_host 2 = Inr top
     \<and> length top = 2
     \<and> mset (top @ rest) = mset [proc_init, proc_db, proc_idle, proc_web]
     \<and> filter (\<lambda>x. ?key x = 40) (top @ rest) = [proc_db, proc_web]"
    by (intro exI [of _ top] exI [of _ rest] conjI)
  have d: "get_top_processes example_host = Inr [proc_db, proc_web, proc_init, proc_idle]"
    using t [THEN conjunct1] by (simp add: get_top_processes_limit_example slice_to_def)
  have c: "get_top_processes_limit example_host 2 = Inr [proc_db, proc_web]"
    by (simp add: get_top_processes_limit_example slice_to_def)
  from d c e show ?thesis
    by (intro conjI)
qed


section \<open>Properties of the report\<close>

lemma report_disks_append:
  "report_disks ds report = report @ concat (map (\<lambda>(mount, d). disk_line mount d) ds)"
  by (induction ds arbitrary: report) auto

lemma report_processes_append:
  "report_processes ps report = report @ concat (map process_line ps)"
  by (induction ps arbitrary: report) auto

lemma generate_report_split:
  "generate_report now m =
     (newline @ ''=== SYSTEM HEALTH REPORT ==='' @ newline @ ''Timestamp: '')
     @ strftime_date_time now
     @ (newline @ newline
        @ ''CPU Usage: '' @ format_1f (cpu_percent m) @ ''%'' @ newline
        @ ''Memory Usage: '' @ format_1f (mem_percent (memory m)) @ ''% (''
        @ float_repr (mem_used (memory m)) @ '' GB / ''
        @ float_repr (mem_total (memory m)) @ '' GB)'' @ newline
        @ newline
        @ ''Disk Usage:''
        @ concat (map (\<lambda>(mount, d). disk_line mount d) (disk m))
        @ newline @ newline @ ''Running Processes: '' @ py_str_int (int (process_count m))
        @ newline @ newline @ ''Top 5 Processes by CPU:''
        @ concat (map process_line (top_processes m)))"
  by (simp add: generate_report_def report_header_def report_disks_append
      report_processes_append)

lemma strftime_examples:
  "strftime_date_time example_time = ''2024-03-09 07:05:00''"
  "strftime_date_time later_time = ''2024-03-09 07:05:01''"
  by code_simp+

text \<open>
  Claim C3, amended. The report holds the time of the call: on the same metrics, two
  calls of \<open>generate_report\<close> return the same text if and only if the clock gives them
  the same timestamp (to the second), and the two texts are the same before and after
  the timestamp.
\<close>

theorem generate_report_same_second:
  "(generate_report now m = generate_report now' m
      \<longleftrightarrow> strftime_date_time now = strftime_date_time now')
   \<and> (\<exists>before after. \<forall>t. generate_report t m = before @ strftime_date_time t @ after)"
proof -
  have "\<exists>before after. \<forall>t. generate_report t m = before @ strftime_date_time t @ after"
    using generate_report_split [of _ m] by blast
  moreover have "generate_report now m = generate_report now' m
      \<longleftrightarrow> strftime_date_time now = strftime_date_time now'"
    unfolding generate_report_split by (simp only: same_append_eq append_same_eq)
  ultimately show ?thesis
    by simp
qed

theorem generate_report_depends_on_clock:
  "\<not> (\<forall>now now' m. generate_report now m = generate_report now' m)"
proof
  assume "\<forall>now now' m. generate_report now m = generate_report now' m"
  then have "generate_report example_time busy_cpu_metrics
      = generate_report later_time busy_cpu_metrics"
    by blast
  then have "strftime_date_time example_time = strftime_date_time later_time"
    unfolding generate_report_split by (simp only: same_append_eq append_same_eq)
  then show False
    by (simp add: strftime_examples)
qed

section \<open>Properties of the cycle\<close>

lemma send_alert_text:
  "send_alert alert_type message out =
     out @ [LogWarning ([CHR 0xF0, CHR 0x9F, CHR 0x9A, CHR 0xA8] @ '' ALERT ['' @ alert_type
                          @ '']: '' @ message),
            Print (CHR 0x0A # [CHR 0xF0, CHR 0x9F, CHR 0x9A, CHR 0xA8] @ '' ALERT [''
                          @ alert_type @ '']: '' @ message @ [CHR 0x0A])]"
  by (simp add: send_alert_def alert_msg_def newline_def)

lemma dispatch_alerts_append:
  "dispatch_alerts alerts out =
     out @ concat (map (\<lambda>a.
       [LogWarning ([CHR 0xF0, CHR 0x9F, CHR 0x9A, CHR 0xA8]
                      @ '' ALERT [THRESHOLD_EXCEEDED]: '' @ a),
        Print (CHR 0x0A # [CHR 0xF0, CHR 0x9F, CHR 0x9A, CHR 0xA8]
                      @ '' ALERT [THRESHOLD_EXCEEDED]: '' @ a @ [CHR 0x0A])]) alerts)"
  by (induction alerts arbitrary: out) (simp_all add: send_alert_text)

lemma filter_concat_alerts:
  "filter is_warning (concat (map (\<lambda>a. [LogWarning (f a), Print (g a)]) alerts))
     = map (\<lambda>a. LogWarning (f a)) alerts"
  "filter is_print (concat (map (\<lambda>a. [LogWarning (f a), Print (g a)]) alerts))
     = map (\<lambda>a. Print (g a)) alerts"
  by (induction alerts) simp_all

text \<open>
  Claim C9. When a cycle has collected the metrics and the evaluator has returned its
  list of alerts, \<open>monitor_once\<close> writes, after the events written before, for each
  element of that list one warning of the logger with the text
  \<open><U+1F6A8> ALERT [THRESHOLD_EXCEEDED]: \<close> followed by the alert, and one \<open>print\<close> of
  the same text between two newlines, in the order of the list and with repeated
  elements repeated, and then the record that the check is complete: \<open>send_alert\<close> is
  called once for each alert. What a cycle writes does not depend on the events of
  earlier cycles.
\<close>

theorem monitor_once_dispatches_each_alert:
  assumes "collect_metrics h = Inr m" and "check_thresholds th m = Inr alerts"
  shows "\<exists>written. monitor_once th h out
       = (out @ written, Inr (m, alerts, generate_report (report_time h) m))
     \<and> written =
         concat (map (\<lambda>a.
           [LogWarning ([CHR 0xF0, CHR 0x9F, CHR 0x9A, CHR 0xA8]
                          @ '' ALERT [THRESHOLD_EXCEEDED]: '' @ a),
            Print (CHR 0x0A # [CHR 0xF0, CHR 0x9F, CHR 0x9A, CHR 0xA8]
                          @ '' ALERT [THRESHOLD_EXCEEDED]: '' @ a @ [CHR 0x0A])]) alerts)
         @ [LogInfo ''System health check completed'']
     \<and> filter is_warning written
         = map (\<lambda>a. LogWarning ([CHR 0xF0, CHR 0x9F, CHR 0x9A, CHR 0xA8]
                                  @ '' ALERT [THRESHOLD_EXCEEDED]: '' @ a)) alerts
     \<and> filter is_print written
         = map (\<lambda>a. Print (CHR 0x0A # [CHR 0xF0, CHR 0x9F, CHR 0x9A, CHR 0xA8]
                              @ '' ALERT [THRESHOLD_EXCEEDED]: '' @ a @ [CHR 0x0A])) alerts"
proof -
  let ?warn = "\<lambda>a. [CHR 0xF0, CHR 0x9F, CHR 0x9A, CHR 0xA8]
                          @ '' ALERT [THRESHOLD_EXCEEDED]: '' @ a"
  let ?show = "\<lambda>a. CHR 0x0A # [CHR 0xF0, CHR 0x9F, CHR 0x9A, CHR 0xA8]
                          @ '' ALERT [THRESHOLD_EXCEEDED]: '' @ a @ [CHR 0x0A]"
  let ?sent = "concat (map (\<lambda>a. [LogWarning (?warn a), Print (?show a)]) alerts)"
  let ?written = "?sent @ [LogInfo ''System health check completed'']"
  have 1: "monitor_once th h out
       = (out @ ?written, Inr (m, alerts, generate_report (report_time h) m))"
    using assms by (simp add: monitor_once_def dispatch_alerts_append)
  have 2: "filter is_warning ?written = map (\<lambda>a. LogWarning (?warn a)) alerts"
    using filter_concat_alerts(1) [of ?warn ?show alerts] by simp
  have 3: "filter is_print ?written = map (\<lambda>a. Print (?show a)) alerts"
    using filter_concat_alerts(2) [of ?warn ?show alerts] by simp
  have 0: "?written = ?written"
    by (rule refl)
  from 1 0 2 3 show ?thesis
    by (intro exI [of _ ?written] conjI)
qed


section \<open>The example host\<close>

lemma get_disk_usage_example:
  "get_disk_usage example_host = Inr [(''/'', example_entry), (''/data'', example_entry)]"
  by (simp add: get_disk_usage_def example_host_def example_disk_usage_def disk_entry_def
      int_true_div_def root_usage_entry example_entry_def)
    (simp add: root_usage_def)

lemma collect_metrics_example:
  "collect_metrics example_host = Inr example_metrics"
  by (simp add: collect_metrics_def get_disk_usage_example get_top_processes_def
      get_top_processes_limit_example slice_to_def example_metrics_def get_cpu_usage_def
      get_process_count_def)
    (simp add: example_host_def)

lemma check_thresholds_example:
  "check_thresholds default_thresholds example_metrics =
     Inr [''High CPU usage: 95.0% (threshold: 80.0%)'',
          ''High memory usage: 90.0% (threshold: 85.0%)'']"
  using check_thresholds_closed [OF threshold_default, of example_metrics]
  by (simp add: example_metrics_def example_entry_def get_memory_usage_def example_host_def
      cpu_alert_def memory_alert_def format_1f_examples)

theorem monitor_once_dispatches_each_alert_witness:
  "monitor_once default_thresholds example_host [] =
     ([LogWarning ([CHR 0xF0, CHR 0x9F, CHR 0x9A, CHR 0xA8]
        @ '' ALERT [THRESHOLD_EXCEEDED]: High CPU usage: 95.0% (threshold: 80.0%)''),
       Print (CHR 0x0A # [CHR 0xF0, CHR 0x9F, CHR 0x9A, CHR 0xA8]
        @ '' ALERT [THRESHOLD_EXCEEDED]: High CPU usage: 95.0% (threshold: 80.0%)'' @ [CHR 0x0A]),
       LogWarning ([CHR 0xF0, CHR 0x9F, CHR 0x9A, CHR 0xA8]
        @ '' ALERT [THRESHOLD_EXCEEDED]: High memory usage: 90.0% (threshold: 85.0%)''),
       Print (CHR 0x0A # [CHR 0xF0, CHR 0x9F, CHR 0x9A, CHR 0xA8]
        @ '' ALERT [THRESHOLD_EXCEEDED]: High memory usage: 90.0% (threshold: 85.0%)'' @ [CHR 0x0A]),
       LogInfo ''System health check completed''],
      Inr (example_metrics,
           [''High CPU usage: 95.0% (threshold: 80.0%)'',
            ''High memory usage: 90.0% (threshold: 85.0%)''],
           generate_report example_time example_metrics))"
proof -
  have t: "report_time example_host = example_time"
    by (simp add: example_host_def)
  show ?thesis
    using monitor_once_dispatches_each_alert
      [OF collect_metrics_example check_thresholds_example, of "[]"]
    apply (elim exE conjE)
    apply (simp add: t)
    done
qed

section \<open>Properties of the loop\<close>

lemma loop_body_example:
  "loop_body default_thresholds 60 example_host =
     ([LogWarning ([CHR 0xF0, CHR 0x9F, CHR 0x9A, CHR 0xA8]
        @ '' ALERT [THRESHOLD_EXCEEDED]: High CPU usage: 95.0% (threshold: 80.0%)''),
       Print (CHR 0x0A # [CHR 0xF0, CHR 0x9F, CHR 0x9A, CHR 0xA8]
        @ '' ALERT [THRESHOLD_EXCEEDED]: High CPU usage: 95.0% (threshold: 80.0%)'' @ [CHR 0x0A]),
       LogWarning ([CHR 0xF0, CHR 0x9F, CHR 0x9A, CHR 0xA8]
        @ '' ALERT [THRESHOLD_EXCEEDED]: High memory usage: 90.0% (threshold: 85.0%)''),
       Print (CHR 0x0A # [CHR 0xF0, CHR 0x9F, CHR 0x9A, CHR 0xA8]
        @ '' ALERT [THRESHOLD_EXCEEDED]: High memory usage: 90.0% (threshold: 85.0%)'' @ [CHR 0x0A]),
       LogInfo ''System health check completed'',
       Sleep 60], Inr ())"
  by (simp add: loop_body_def monitor_once_def collect_metrics_example
      check_thresholds_example dispatch_alerts_append)

lemma starting_text:
  "starting th interval =
     [LogInfo (''Starting continuous monitoring (interval: '' @ py_str_int interval @ ''s)''),
      LogThresholds th]"
  by (simp add: starting_def)

lemma stopped_text:
  "stopped =
     [LogInfo ''Monitoring stopped by user'',
      Print (CHR 0x0A # [CHR 0xF0, CHR 0x9F, CHR 0x9B, CHR 0x91] @ '' Monitoring stopped'')]"
  by (simp add: stopped_def newline_def)

lemma passes_Suc:
  "passes th interval hosts (Suc n) =
     passes th interval hosts n @ fst (loop_body th interval (hosts n))"
  by (simp add: passes_def)

lemma run_loop_signal:
  assumes "\<forall>i. i0 \<le> i \<and> i < j \<longrightarrow> snd (loop_body th interval (hosts i)) = Inr ()"
    and "i0 \<le> j" and "j - i0 < fuel"
  shows "run_loop fuel th interval hosts (Some (j, k)) i0 out =
     Some (out @ concat (map (\<lambda>i. fst (loop_body th interval (hosts i))) [i0..<j])
             @ take k (fst (loop_body th interval (hosts j))) @ stopped, Inr ())"
  using assms
proof (induction fuel arbitrary: i0 out)
  case 0
  then show ?case by simp
next
  case (Suc fuel)
  obtain evs r where b: "loop_body th interval (hosts i0) = (evs, r)"
    by (cases "loop_body th interval (hosts i0)")
  show ?case
  proof (cases "j = i0")
    case True
    with b show ?thesis by simp
  next
    case False
    with Suc.prems have lt: "i0 < j" by simp
    with Suc.prems(1) b have r: "r = Inr ()"
      by (metis order_refl snd_conv)
    have "run_loop fuel th interval hosts (Some (j, k)) (Suc i0) (out @ evs) =
      Some ((out @ evs) @ concat (map (\<lambda>i. fst (loop_body th interval (hosts i))) [Suc i0..<j])
             @ take k (fst (loop_body th interval (hosts j))) @ stopped, Inr ())"
      using Suc.prems lt by (intro Suc.IH) auto
    with False b r lt show ?thesis
      by (simp add: upt_conv_Cons)
  qed
qed

text \<open>Without an interrupt, and with passes that end normally, the loop does not end.\<close>

lemma run_loop_no_signal:
  assumes "\<forall>i. snd (loop_body th interval (hosts i)) = Inr ()"
  shows "run_loop fuel th interval hosts None i0 out = None"
proof (induction fuel arbitrary: i0 out)
  case 0
  show ?case by simp
next
  case (Suc fuel)
  obtain evs r where b: "loop_body th interval (hosts i0) = (evs, r)"
    by (cases "loop_body th interval (hosts i0)")
  with assms have "r = Inr ()"
    by (metis snd_conv)
  with b Suc show ?case
    by simp
qed

text \<open>
  An interrupt that a reading of the host raises inside the first pass is caught by the
  same handler: the loop writes the stop and returns normally.
\<close>

lemma monitor_continuous_interrupted_read:
  "monitor_continuous 1 default_thresholds 60
      (\<lambda>i. example_host\<lparr>disk_usage := (\<lambda>mountpoint. Inl KeyboardInterrupt)\<rparr>) None =
     Some ([LogInfo ''Starting continuous monitoring (interval: 60s)'',
            LogThresholds default_thresholds,
            LogInfo ''Monitoring stopped by user'',
            Print (CHR 0x0A # [CHR 0xF0, CHR 0x9F, CHR 0x9B, CHR 0x91] @ '' Monitoring stopped'')], Inr ())"
proof -
  have "py_str_int 60 = ''60''"
    by code_simp
  moreover have "loop_body default_thresholds 60
      (example_host\<lparr>disk_usage := (\<lambda>mountpoint. Inl KeyboardInterrupt)\<rparr>)
      = ([], Inl KeyboardInterrupt)"
    by (simp add: loop_body_def monitor_once_def collect_metrics_def get_disk_usage_def
        example_host_def)
  ultimately show ?thesis
    by (simp add: monitor_continuous_def starting_text stopped_text)
qed

text \<open>
  Claim C7, amended. An interrupt that arrives while the loop runs is observed where it
  arrives, in the wait between two cycles or inside a cycle. When the passes before pass
  \<open>j\<close> end normally and the interrupt arrives in pass \<open>j\<close> after \<open>k\<close> of its
  events, the loop has written the two records of its start, the events of the passes
  before, then the first \<open>k\<close> events of pass \<open>j\<close> and nothing more of it, then the
  record \<open>Monitoring stopped by user\<close> of the logger and the line
  \<open><U+1F6D1> Monitoring stopped\<close> after a newline, and it returns normally. When the
  interrupt arrives in the wait (the pass has written all of its events), what is written
  consists of whole passes.
\<close>

theorem monitor_continuous_interrupt:
  assumes "\<forall>i < j. snd (loop_body th interval (hosts i)) = Inr ()" and "j < fuel"
  shows "monitor_continuous fuel th interval hosts (Some (j, k)) =
       Some ([LogInfo (''Starting continuous monitoring (interval: '' @ py_str_int interval
                         @ ''s)''),
              LogThresholds th]
             @ passes th interval hosts j
             @ take k (fst (loop_body th interval (hosts j)))
             @ [LogInfo ''Monitoring stopped by user'',
             Print (CHR 0x0A # [CHR 0xF0, CHR 0x9F, CHR 0x9B, CHR 0x91] @ '' Monitoring stopped'')], Inr ())
     \<and> (length (fst (loop_body th interval (hosts j))) \<le> k \<longrightarrow>
          monitor_continuous fuel th interval hosts (Some (j, k)) =
            Some ([LogInfo (''Starting continuous monitoring (interval: ''
                             @ py_str_int interval @ ''s)''),
                   LogThresholds th]
                  @ passes th interval hosts (Suc j)
                  @ [LogInfo ''Monitoring stopped by user'',
             Print (CHR 0x0A # [CHR 0xF0, CHR 0x9F, CHR 0x9B, CHR 0x91] @ '' Monitoring stopped'')], Inr ()))"
proof -
  have "run_loop fuel th interval hosts (Some (j, k)) 0 (starting th interval) =
     Some (starting th interval
             @ concat (map (\<lambda>i. fst (loop_body th interval (hosts i))) [0..<j])
             @ take k (fst (loop_body th interval (hosts j))) @ stopped, Inr ())"
    using assms by (intro run_loop_signal) auto
  then have 1: "monitor_continuous fuel th interval hosts (Some (j, k)) =
       Some (starting th interval @ passes th interval hosts j
               @ take k (fst (loop_body th interval (hosts j))) @ stopped, Inr ())"
    by (simp add: monitor_continuous_def passes_def)
  then show ?thesis
    by (simp add: passes_Suc starting_text stopped_text)
qed

theorem monitor_continuous_interrupt_witness:
  "monitor_continuous 2 default_thresholds 60 (\<lambda>i. example_host) (Some (1, 2)) =
     Some ([LogInfo ''Starting continuous monitoring (interval: 60s)'',
            LogThresholds default_thresholds,
            LogWarning ([CHR 0xF0, CHR 0x9F, CHR 0x9A, CHR 0xA8]
        @ '' ALERT [THRESHOLD_EXCEEDED]: High CPU usage: 95.0% (threshold: 80.0%)''),
            Print (CHR 0x0A # [CHR 0xF0, CHR 0x9F, CHR 0x9A, CHR 0xA8]
        @ '' ALERT [THRESHOLD_EXCEEDED]: High CPU usage: 95.0% (threshold: 80.0%)'' @ [CHR 0x0A]),
            LogWarning ([CHR 0xF0, CHR 0x9F, CHR 0x9A, CHR 0xA8]
        @ '' ALERT [THRESHOLD_EXCEEDED]: High memory usage: 90.0% (threshold: 85.0%)''),
            Print (CHR 0x0A # [CHR 0xF0, CHR 0x9F, CHR 0x9A, CHR 0xA8]
        @ '' ALERT [THRESHOLD_EXCEEDED]: High memory usage: 90.0% (threshold: 85.0%)'' @ [CHR 0x0A]),
            LogInfo ''System health check completed'',
            Sleep 60,
            LogWarning ([CHR 0xF0, CHR 0x9F, CHR 0x9A, CHR 0xA8]
        @ '' ALERT [THRESHOLD_EXCEEDED]: High CPU usage: 95.0% (threshold: 80.0%)''),
            Print (CHR 0x0A # [CHR 0xF0, CHR 0x9F, CHR 0x9A, CHR 0xA8]
        @ '' ALERT [THRESHOLD_EXCEEDED]: High CPU usage: 95.0% (threshold: 80.0%)'' @ [CHR 0x0A]),
            LogInfo ''Monitoring stopped by user'',
            Print (CHR 0x0A # [CHR 0xF0, CHR 0x9F, CHR 0x9B, CHR 0x91] @ '' Monitoring stopped'')], Inr ())
   \<and> monitor_continuous 2 default_thresholds 60 (\<lambda>i. example_host) (Some (1, 6)) =
     Some ([LogInfo ''Starting continuous monitoring (interval: 60s)'',
            LogThresholds default_thresholds,
            LogWarning ([CHR 0xF0, CHR 0x9F, CHR 0x9A, CHR 0xA8]
        @ '' ALERT [THRESHOLD_EXCEEDED]: High CPU usage: 95.0% (threshold: 80.0%)''),
            Print (CHR 0x0A # [CHR 0xF0, CHR 0x9F, CHR 0x9A, CHR 0xA8]
        @ '' ALERT [THRESHOLD_EXCEEDED]: High CPU usage: 95.0% (threshold: 80.0%)'' @ [CHR 0x0A]),
            LogWarning ([CHR 0xF0, CHR 0x9F, CHR 0x9A, CHR 0xA8]
        @ '' ALERT [THRESHOLD_EXCEEDED]: High memory usage: 90.0% (threshold: 85.0%)''),
            Print (CHR 0x0A # [CHR 0xF0, CHR 0x9F, CHR 0x9A, CHR 0xA8]
        @ '' ALERT [THRESHOLD_EXCEEDED]: High memory usage: 90.0% (threshold: 85.0%)'' @ [CHR 0x0A]),
            LogInfo ''System health check completed'',
            Sleep 60,
            LogWarning ([CHR 0xF0, CHR 0x9F, CHR 0x9A, CHR 0xA8]
        @ '' ALERT [THRESHOLD_EXCEEDED]: High CPU usage: 95.0% (threshold: 80.0%)''),
            Print (CHR 0x0A # [CHR 0xF0, CHR 0x9F, CHR 0x9A, CHR 0xA8]
        @ '' ALERT [THRESHOLD_EXCEEDED]: High CPU usage: 95.0% (threshold: 80.0%)'' @ [CHR 0x0A]),
            LogWarning ([CHR 0xF0, CHR 0x9F, CHR 0x9A, CHR 0xA8]
        @ '' ALERT [THRESHOLD_EXCEEDED]: High memory usage: 90.0% (threshold: 85.0%)''),
            Print (CHR 0x0A # [CHR 0xF0, CHR 0x9F, CHR 0x9A, CHR 0xA8]
        @ '' ALERT [THRESHOLD_EXCEEDED]: High memory usage: 90.0% (threshold: 85.0%)'' @ [CHR 0x0A]),
            LogInfo ''System health check completed'',
            Sleep 60,
            LogInfo ''Monitoring stopped by user'',
            Print (CHR 0x0A # [CHR 0xF0, CHR 0x9F, CHR 0x9B, CHR 0x91] @ '' Monitoring stopped'')], Inr ())"
proof -
  have n: "\<forall>i < 1. snd (loop_body default_thresholds 60 ((\<lambda>i. example_host) i)) = Inr ()"
    by (simp add: loop_body_example)
  have f: "(1::nat) < 2"
    by simp
  have l: "length (fst (loop_body default_thresholds 60 ((\<lambda>i. example_host) 1))) \<le> 6"
    by (simp add: loop_body_example)
  have s: "py_str_int 60 = ''60''"
    by code_simp
  have p1: "passes default_thresholds 60 (\<lambda>i. example_host) (Suc 0)
      = fst (loop_body default_thresholds 60 example_host)"
    by (simp add: passes_def)
  have p2: "passes default_thresholds 60 (\<lambda>i. example_host) (Suc (Suc 0))
      = fst (loop_body default_thresholds 60 example_host)
        @ fst (loop_body default_thresholds 60 example_host)"
    by (simp add: passes_def)
  note a = monitor_continuous_interrupt [OF n f, of 2, THEN conjunct1]
  note b = monitor_continuous_interrupt [OF n f, of 6, THEN conjunct2, THEN mp, OF l]
  have a': "monitor_continuous 2 default_thresholds 60 (\<lambda>i. example_host) (Some (1, 2)) =
     Some ([LogInfo ''Starting continuous monitoring (interval: 60s)'',
            LogThresholds default_thresholds,
            LogWarning ([CHR 0xF0, CHR 0x9F, CHR 0x9A, CHR 0xA8]
        @ '' ALERT [THRESHOLD_EXCEEDED]: High CPU usage: 95.0% (threshold: 80.0%)''),
            Print (CHR 0x0A # [CHR 0xF0, CHR 0x9F, CHR 0x9A, CHR 0xA8]
        @ '' ALERT [THRESHOLD_EXCEEDED]: High CPU usage: 95.0% (threshold: 80.0%)'' @ [CHR 0x0A]),
            LogWarning ([CHR 0xF0, CHR 0x9F, CHR 0x9A, CHR 0xA8]
        @ '' ALERT [THRESHOLD_EXCEEDED]: High memory usage: 90.0% (threshold: 85.0%)''),
            Print (CHR 0x0A # [CHR 0xF0, CHR 0x9F, CHR 0x9A, CHR 0xA8]
        @ '' ALERT [THRESHOLD_EXCEEDED]: High memory usage: 90.0% (threshold: 85.0%)'' @ [CHR 0x0A]),
            LogInfo ''System health check completed'',
            Sleep 60,
            LogWarning ([CHR 0xF0, CHR 0x9F, CHR 0x9A, CHR 0xA8]
        @ '' ALERT [THRESHOLD_EXCEEDED]: High CPU usage: 95.0% (threshold: 80.0%)''),
            Print (CHR 0x0A # [CHR 0xF0, CHR 0x9F, CHR 0x9A, CHR 0xA8]
        @ '' ALERT [THRESHOLD_EXCEEDED]: High CPU usage: 95.0% (threshold: 80.0%)'' @ [CHR 0x0A]),
            LogInfo ''Monitoring stopped by user'',
            Print (CHR 0x0A # [CHR 0xF0, CHR 0x9F, CHR 0x9B, CHR 0x91] @ '' Monitoring stopped'')], Inr ())"
    using a by (simp add: p1 s loop_body_example numeral_2_eq_2)
  have b': "monitor_continuous 2 default_thresholds 60 (\<lambda>i. example_host) (Some (1, 6)) =
     Some ([LogInfo ''Starting continuous monitoring (interval: 60s)'',
            LogThresholds default_thresholds,
            LogWarning ([CHR 0xF0, CHR 0x9F, CHR 0x9A, CHR 0xA8]
        @ '' ALERT [THRESHOLD_EXCEEDED]: High CPU usage: 95.0% (threshold: 80.0%)''),
            Print (CHR 0x0A # [CHR 0xF0, CHR 0x9F, CHR 0x9A, CHR 0xA8]
        @ '' ALERT [THRESHOLD_EXCEEDED]: High CPU usage: 95.0% (threshold: 80.0%)'' @ [CHR 0x0A]),
            LogWarning ([CHR 0xF0, CHR 0x9F, CHR 0x9A, CHR 0xA8]
        @ '' ALERT [THRESHOLD_EXCEEDED]: High memory usage: 90.0% (threshold: 85.0%)''),
            Print (CHR 0x0A # [CHR 0xF0, CHR 0x9F, CHR 0x9A, CHR 0xA8]
        @ '' ALERT [THRESHOLD_EXCEEDED]: High memory usage: 90.0% (threshold: 85.0%)'' @ [CHR 0x0A]),
            LogInfo ''System health check completed'',
            Sleep 60,
            LogWarning ([CHR 0xF0, CHR 0x9F, CHR 0x9A, CHR 0xA8]
        @ '' ALERT [THRESHOLD_EXCEEDED]: High CPU usage: 95.0% (threshold: 80.0%)''),
            Print (CHR 0x0A # [CHR 0xF0, CHR 0x9F, CHR 0x9A, CHR 0xA8]
        @ '' ALERT [THRESHOLD_EXCEEDED]: High CPU usage: 95.0% (threshold: 80.0%)'' @ [CHR 0x0A]),
            LogWarning ([CHR 0xF0, CHR 0x9F, CHR 0x9A, CHR 0xA8]
        @ '' ALERT [THRESHOLD_EXCEEDED]: High memory usage: 90.0% (threshold: 85.0%)''),
            Print (CHR 0x0A # [CHR 0xF0, CHR 0x9F, CHR 0x9A, CHR 0xA8]
        @ '' ALERT [THRESHOLD_EXCEEDED]: High memory usage: 90.0% (threshold: 85.0%)'' @ [CHR 0x0A]),
            LogInfo ''System health check completed'',
            Sleep 60,
            LogInfo ''Monitoring stopped by user'',
            Print (CHR 0x0A # [CHR 0xF0, CHR 0x9F, CHR 0x9B, CHR 0x91] @ '' Monitoring stopped'')], Inr ())"
    using b by (simp add: p2 s loop_body_example)
  from a' b' show ?thesis
    by (rule conjI)
qed

text \<open>
  An interrupt that arrives after the first alert of a cycle with two alerts: the second
  alert is not sent, and what is written does not consist of whole passes.
\<close>

lemma length_passes_example:
  "length (passes default_thresholds 60 (\<lambda>i. example_host) n) = 6 * n"
  by (induction n) (simp_all add: passes_Suc loop_body_example, simp add: passes_def)

theorem monitor_continuous_cuts_cycle:
  "\<not> (\<forall>fuel th interval hosts j k written r.
        monitor_continuous fuel th interval hosts (Some (j, k)) = Some (written, r) \<longrightarrow>
        (\<exists>n. written =
           [LogInfo (''Starting continuous monitoring (interval: '' @ py_str_int interval
                      @ ''s)''),
            LogThresholds th]
           @ passes th interval hosts n
           @ [LogInfo ''Monitoring stopped by user'',
             Print (CHR 0x0A # [CHR 0xF0, CHR 0x9F, CHR 0x9B, CHR 0x91] @ '' Monitoring stopped'')]))"
proof
  assume "\<forall>fuel th interval hosts j k written r.
        monitor_continuous fuel th interval hosts (Some (j, k)) = Some (written, r) \<longrightarrow>
        (\<exists>n. written =
           [LogInfo (''Starting continuous monitoring (interval: '' @ py_str_int interval
                      @ ''s)''),
            LogThresholds th]
           @ passes th interval hosts n
           @ [LogInfo ''Monitoring stopped by user'',
             Print (CHR 0x0A # [CHR 0xF0, CHR 0x9F, CHR 0x9B, CHR 0x91] @ '' Monitoring stopped'')])"
  then have all: "\<forall>fuel th interval hosts j k written r.
        monitor_continuous fuel th interval hosts (Some (j, k)) = Some (written, r) \<longrightarrow>
        (\<exists>n. written = starting th interval @ passes th interval hosts n @ stopped)"
    by (simp only: starting_text stopped_text)
  have run: "monitor_continuous 1 default_thresholds 60 (\<lambda>i. example_host) (Some (0, 2)) =
      Some (starting default_thresholds 60
              @ [LogWarning ([CHR 0xF0, CHR 0x9F, CHR 0x9A, CHR 0xA8]
        @ '' ALERT [THRESHOLD_EXCEEDED]: High CPU usage: 95.0% (threshold: 80.0%)''),
                 Print (CHR 0x0A # [CHR 0xF0, CHR 0x9F, CHR 0x9A, CHR 0xA8]
        @ '' ALERT [THRESHOLD_EXCEEDED]: High CPU usage: 95.0% (threshold: 80.0%)'' @ [CHR 0x0A])]
              @ stopped, Inr ())"
    by (simp add: monitor_continuous_def loop_body_example numeral_2_eq_2)
  from all [THEN spec, THEN spec, THEN spec, THEN spec, THEN spec, THEN spec, THEN spec,
      THEN spec, THEN mp, OF run]
  obtain n where "starting default_thresholds 60
              @ [LogWarning ([CHR 0xF0, CHR 0x9F, CHR 0x9A, CHR 0xA8]
        @ '' ALERT [THRESHOLD_EXCEEDED]: High CPU usage: 95.0% (threshold: 80.0%)''),
                 Print (CHR 0x0A # [CHR 0xF0, CHR 0x9F, CHR 0x9A, CHR 0xA8]
        @ '' ALERT [THRESHOLD_EXCEEDED]: High CPU usage: 95.0% (threshold: 80.0%)'' @ [CHR 0x0A])]
              @ stopped
      = starting default_thresholds 60 @ passes default_thresholds 60 (\<lambda>i. example_host) n @ stopped" ..
  then have "length [LogWarning ([CHR 0xF0, CHR 0x9F, CHR 0x9A, CHR 0xA8]
        @ '' ALERT [THRESHOLD_EXCEEDED]: High CPU usage: 95.0% (threshold: 80.0%)''),
                 Print (CHR 0x0A # [CHR 0xF0, CHR 0x9F, CHR 0x9A, CHR 0xA8]
        @ '' ALERT [THRESHOLD_EXCEEDED]: High CPU usage: 95.0% (threshold: 80.0%)'' @ [CHR 0x0A])]
      = length (passes default_thresholds 60 (\<lambda>i. example_host) n)"
    by (simp only: same_append_eq append_same_eq)
  then have e: "Suc (Suc 0) = 6 * n"
    by (simp add: length_passes_example)
  have "Suc (Suc 0) \<noteq> 6 * n"
    by presburger
  from this e show False
    by (rule notE)
qed


end
